theory Spec2Isabelle
  imports Main "HOL-Library.Word"
begin

unbundle bit_operations_syntax

section \<open>Data model of dhcp6/device.c\<close>

text \<open>
  The structures of the DHCPv6 client device, as \<^verbatim>\<open>device.c\<close> uses them. Fields the
  source only copies or compares (millisecond values, enterprise numbers) are \<open>nat\<close>;
  fields it computes on are machine words (\<open>retrans.count\<close> is incremented, the IAID and
  the interface index are XORed). \<open>struct timeval\<close> holds two signed \<open>long\<close>s; they are
  \<open>int\<close> here (a 64-bit \<open>long\<close>, far from overflow for clock values).
\<close>

type_synonym u8 = "8 word"
type_synonym u16 = "16 word"
type_synonym u32 = "32 word"

record timeval =
  tv_sec :: int
  tv_usec :: int

record ni_int_range =
  range_min :: int
  range_max :: int

record ni_timeout_param =
  tp_nretries :: int
  tp_timeout :: nat
  tp_jitter :: ni_int_range

record ni_dhcp6_retrans =
  retrans_delay :: nat
  retrans_jitter :: int
  retrans_duration :: nat
  retrans_start :: timeval
  retrans_deadline :: timeval
  retrans_count :: u32
  retrans_params :: ni_timeout_param

datatype ni_dhcp6_state =
    NI_DHCP6_STATE_INIT
  | NI_DHCP6_STATE_WAIT_READY
  | NI_DHCP6_STATE_SELECTING
  | NI_DHCP6_STATE_REQUESTING
  | NI_DHCP6_STATE_BOUND
  | NI_DHCP6_STATE_RENEWING
  | NI_DHCP6_STATE_REBINDING
  | NI_DHCP6_STATE_RELEASING
  | NI_DHCP6_STATE_DECLINING
  | NI_DHCP6_STATE_CONFIRMING
  | NI_DHCP6_STATE_INFO_REQUESTING

datatype sa_family = AF_UNSPEC | AF_INET | AF_INET6

record ni_sockaddr =
  ss_family :: sa_family
  ss_bytes :: "u8 list"

text \<open>An interface address: \<open>ni_address_is_tentative\<close> and \<open>ni_address_is_duplicate\<close>
  read one flag each of the address.\<close>

record ni_address =
  addr_family :: sa_family
  addr_local_addr :: ni_sockaddr
  addr_tentative :: bool
  addr_duplicate :: bool

record ni_netdev =
  nd_name :: string
  nd_ifindex :: u32
  nd_arp_type :: nat
  nd_hwaddr :: "u8 list"
  nd_vlan_tag :: "u16 option"
  nd_link_up :: bool
  nd_network_up :: bool
  nd_addrs :: "ni_address list"

text \<open>The outbound buffer: the bytes between head and tail, and the allocated size.\<close>

record ni_buffer =
  buf_bytes :: "u8 list"
  buf_size :: nat

record ni_dhcp6_ia =
  ia_iaid :: u32
  ia_renewal_time :: nat
  ia_rebind_time :: nat

record ni_dhcp6_config =
  cfg_uuid :: "u8 list"
  cfg_update :: u32
  cfg_info_only :: bool
  cfg_rapid_commit :: bool
  cfg_lease_time :: nat
  cfg_client_duid :: "u8 list"
  cfg_ia_list :: "ni_dhcp6_ia list"
  cfg_hostname :: string
  cfg_user_class :: "string list"
  cfg_vendor_class_en :: nat
  cfg_vendor_class_data :: "string list"
  cfg_vendor_opts_en :: nat
  cfg_vendor_opts_data :: "(string \<times> string) list"

record ni_dhcp6_request =
  req_uuid :: "u8 list"
  req_update :: u32
  req_info_only :: bool
  req_rapid_commit :: bool
  req_clientid :: "string option"
  req_hostname :: "string option"
  req_ia_list :: "ni_dhcp6_ia list option"

text \<open>
  Calls the device makes into its collaborators (the lease module, the allocator, the
  DUID store, the multicast socket), oldest first. A lease is held by pointer: \<open>None\<close> is \<open>NULL\<close>,
  \<open>Some p\<close> the lease at address \<open>p\<close>.
\<close>

datatype effect =
    LeaseFree "nat option"
  | ConfigFree ni_dhcp6_config
  | DuidSave "u8 list"
  | SocketSend "u8 list"
  | SocketClose

record ni_dhcp6_device =
  dev_ifname :: string
  dev_ifindex :: u32
  dev_link_addr :: ni_sockaddr
  dev_iaid :: u32
  dev_xid :: u32
  dev_message :: ni_buffer
  dev_mcast_open :: bool
  dev_retrans :: ni_dhcp6_retrans
  dev_fsm_state :: ni_dhcp6_state
  dev_fsm_timer :: "nat option"
  dev_fsm_fail_on_timeout :: bool
  dev_failed :: bool
  dev_config :: "ni_dhcp6_config option"
  dev_request :: "ni_dhcp6_request option"
  dev_lease :: "nat option"
  dev_effects :: "effect list"

section \<open>Time\<close>

text \<open>The \<^verbatim>\<open><sys/time.h>\<close> macros \<open>timerisset\<close>, \<open>timercmp(a, b, >)\<close> and \<open>timersub\<close>.\<close>

definition timerisset :: "timeval \<Rightarrow> bool" where
  "timerisset tv = (tv_sec tv \<noteq> 0 \<or> tv_usec tv \<noteq> 0)"

definition timercmp_gt :: "timeval \<Rightarrow> timeval \<Rightarrow> bool" where
  "timercmp_gt a b =
     (if tv_sec a = tv_sec b then tv_usec a > tv_usec b else tv_sec a > tv_sec b)"

definition timersub :: "timeval \<Rightarrow> timeval \<Rightarrow> timeval" where
  "timersub a b =
     (let s = tv_sec a - tv_sec b; u = tv_usec a - tv_usec b
      in if u < 0 then \<lparr>tv_sec = s - 1, tv_usec = u + 1000000\<rparr>
         else \<lparr>tv_sec = s, tv_usec = u\<rparr>)"

text \<open>C's integer division truncates towards zero.\<close>

definition c_div :: "int \<Rightarrow> int \<Rightarrow> int" where
  "c_div a b = sgn a * sgn b * (\<bar>a\<bar> div \<bar>b\<bar>)"

text \<open>A \<open>struct timeval\<close> as the clock returns it: microseconds within one second.\<close>

definition tv_normal :: "timeval \<Rightarrow> bool" where
  "tv_normal tv = (0 \<le> tv_usec tv \<and> tv_usec tv < 1000000)"

text \<open>
  \<open>ni_dhcp6_device_uptime\<close>; \<open>now\<close> is what \<open>ni_timer_get_time\<close> returns. \<open>uptime\<close> is a
  \<open>long\<close>, compared with the \<open>unsigned int\<close> clamp as a \<open>long\<close>, and the result is
  converted to \<open>unsigned int\<close> on return.
\<close>

definition ni_dhcp6_device_uptime :: "timeval \<Rightarrow> ni_dhcp6_device \<Rightarrow> u32 \<Rightarrow> u32" where
  "ni_dhcp6_device_uptime now dev clamp =
     (let start = retrans_start (dev_retrans dev);
          uptime =
            (if timerisset start \<and> timercmp_gt now start
             then (let delta = timersub now start
                   in tv_sec delta * 100 + c_div (tv_usec delta) 10000)
             else 0)
      in if uptime < uint clamp then word_of_int uptime else clamp)"

section \<open>Lease handling\<close>

text \<open>\<open>ni_dhcp6_device_set_lease\<close>: the lease is compared by pointer.\<close>

definition ni_addrconf_dhcp6_lease_free :: "nat option \<Rightarrow> ni_dhcp6_device \<Rightarrow> ni_dhcp6_device" where
  "ni_addrconf_dhcp6_lease_free lease dev =
     dev\<lparr>dev_effects := dev_effects dev @ [LeaseFree lease]\<rparr>"

definition ni_dhcp6_device_set_lease :: "ni_dhcp6_device \<Rightarrow> nat option \<Rightarrow> ni_dhcp6_device" where
  "ni_dhcp6_device_set_lease dev lease =
     (if dev_lease dev \<noteq> lease
      then (ni_addrconf_dhcp6_lease_free (dev_lease dev) dev)\<lparr>dev_lease := lease\<rparr>
      else dev)"

section \<open>The environment of the device\<close>

text \<open>
  What \<^verbatim>\<open>device.c\<close> calls but does not define: the clock, the process-wide interface
  table, the timeout helpers (\<open>ni_timeout_randomize\<close>, \<open>ni_dhcp6_jitter_rebase\<close>,
  \<open>ni_timeout_arm_msec\<close>, \<open>ni_timeout_recompute\<close>), the socket, the FSM entry points, the
  DUID and IA helpers, the process configuration and the constants of headers that are
  not part of this file. They are parameters of the model. \<open>ni_timeout_arm_msec\<close> and
  \<open>ni_timeout_recompute\<close> write through a pointer; here they return what they wrote.
\<close>

record ni_env =
  env_now :: timeval
  env_nc :: "ni_netdev list option"
  env_randomize :: "nat \<Rightarrow> ni_int_range \<Rightarrow> nat"
  env_jitter_rebase :: "nat \<Rightarrow> int \<Rightarrow> int \<Rightarrow> ni_int_range"
  env_arm_msec :: "ni_timeout_param \<Rightarrow> nat \<times> timeval"
  env_recompute :: "ni_timeout_param \<Rightarrow> bool \<times> ni_timeout_param"
  env_socket_send :: "u8 list \<Rightarrow> int"
  env_fsm_retransmit :: "ni_dhcp6_device \<Rightarrow> int \<times> ni_dhcp6_device"
  env_fsm_start :: "ni_dhcp6_device \<Rightarrow> int \<times> ni_dhcp6_device"
  env_buffer_ensure_tailroom :: "ni_buffer \<Rightarrow> nat \<Rightarrow> ni_buffer"
  env_wbuf_size :: nat
  env_duid_parse_hex :: "string \<Rightarrow> u8 list option"
  env_load_duid :: "u8 list \<Rightarrow> int \<times> u8 list"
  env_duid_init_llt :: "nat \<Rightarrow> u8 list \<Rightarrow> u8 list option"
  env_duid_init_uuid :: "u8 list"
  env_ia_na_new :: "u32 \<Rightarrow> ni_dhcp6_ia"
  env_ia_set_default_lifetimes :: "ni_dhcp6_ia \<Rightarrow> nat \<Rightarrow> ni_dhcp6_ia"
  env_ia_list_copy :: "ni_dhcp6_ia list \<Rightarrow> ni_dhcp6_ia list"
  env_check_domain_name :: "string \<Rightarrow> bool"
  env_hostname_size :: nat
  env_preferred_lifetime :: nat
  env_vendor_version_string :: string
  env_default_duid :: string
  env_vendor_class_en :: nat
  env_vendor_class_data :: "string list"
  env_vendor_opts_en :: nat
  env_vendor_opts_data :: "(string \<times> string) list"
  env_ignore_servers :: "string list"
  env_streq :: "string \<Rightarrow> string \<Rightarrow> bool"

text \<open>
  Modelled from the spec: \<open>ni_netdev_by_index\<close> is not part of this file. The spec has an
  interface index resolve to an interface or not at all; here
  \<open>ni_netdev_by_index(ni_global_state_handle(0), ifindex)\<close> is the first interface of the
  table with that index, \<open>None\<close> when there is no handle or no such interface.
\<close>

definition ni_netdev_by_index :: "ni_netdev list option \<Rightarrow> u32 \<Rightarrow> ni_netdev option" where
  "ni_netdev_by_index nc ifindex =
     (case nc of None \<Rightarrow> None | Some devs \<Rightarrow> find (\<lambda>ifp. nd_ifindex ifp = ifindex) devs)"

text \<open>
  Modelled from the spec: \<open>ni_dhcp6_fsm_set_timeout_msec\<close> is not part of this file. The
  spec has exactly one FSM timer live per device; arming a new timer replaces the prior.
\<close>

definition ni_dhcp6_fsm_set_timeout_msec :: "ni_dhcp6_device \<Rightarrow> nat \<Rightarrow> ni_dhcp6_device" where
  "ni_dhcp6_fsm_set_timeout_msec dev msec = dev\<lparr>dev_fsm_timer := Some msec\<rparr>"

text \<open>
  Modelled from the spec: \<open>ni_dhcp6_mcast_socket_close\<close> and \<open>ni_buffer_clear\<close> are not part
  of this file. Closing leaves the device without an open multicast socket; clearing
  empties the buffer and keeps its storage.
\<close>

definition ni_dhcp6_mcast_socket_close :: "ni_dhcp6_device \<Rightarrow> ni_dhcp6_device" where
  "ni_dhcp6_mcast_socket_close dev =
     dev\<lparr>dev_mcast_open := False, dev_effects := dev_effects dev @ [SocketClose]\<rparr>"

definition ni_buffer_count :: "ni_buffer \<Rightarrow> nat" where
  "ni_buffer_count b = length (buf_bytes b)"

definition ni_buffer_clear :: "ni_buffer \<Rightarrow> ni_buffer" where
  "ni_buffer_clear b = b\<lparr>buf_bytes := []\<rparr>"

definition ni_dhcp6_device_clear_buffer :: "ni_dhcp6_device \<Rightarrow> ni_dhcp6_device" where
  "ni_dhcp6_device_clear_buffer dev = dev\<lparr>dev_message := ni_buffer_clear (dev_message dev)\<rparr>"

definition ni_dhcp6_device_alloc_buffer :: "ni_env \<Rightarrow> ni_dhcp6_device \<Rightarrow> ni_dhcp6_device" where
  "ni_dhcp6_device_alloc_buffer e dev =
     (let m = (if buf_size (dev_message dev) < env_wbuf_size e
               then env_buffer_ensure_tailroom e (dev_message dev) (env_wbuf_size e)
               else dev_message dev)
      in dev\<lparr>dev_message := ni_buffer_clear m\<rparr>)"

section \<open>Retransmission scheduler\<close>


definition ni_dhcp6_device_retransmit_arm :: "ni_env \<Rightarrow> ni_dhcp6_device \<Rightarrow> ni_dhcp6_device" where
  "ni_dhcp6_device_retransmit_arm e dev0 =
     (let dev = dev0\<lparr>dev_retrans := (dev_retrans dev0)\<lparr>retrans_delay := 0, retrans_start := env_now e\<rparr>\<rparr>;
          r = dev_retrans dev;
          params = retrans_params r
      in if tp_nretries params = 0 then dev
         else if dev_fsm_state dev = NI_DHCP6_STATE_SELECTING \<and> retrans_count r = 1
         then (let params1 = params\<lparr>tp_jitter :=
                       env_jitter_rebase e (tp_timeout params) 0 (0 + retrans_jitter r)\<rparr>;
                   (rt, deadline) = env_arm_msec e params1;
                   dev1 = dev\<lparr>dev_retrans := r\<lparr>retrans_deadline := deadline,
                                  retrans_params := params1\<lparr>tp_timeout := rt\<rparr>\<rparr>\<rparr>
               in ni_dhcp6_fsm_set_timeout_msec dev1 rt)
         else (let params1 = params\<lparr>tp_jitter :=
                       env_jitter_rebase e (tp_timeout params) (0 - retrans_jitter r) (0 + retrans_jitter r)\<rparr>;
                   (rt, deadline) = env_arm_msec e params1;
                   dev1 = dev\<lparr>dev_retrans := r\<lparr>retrans_deadline := deadline,
                                  retrans_params := params1\<lparr>tp_timeout := rt\<rparr>\<rparr>\<rparr>
               in if retrans_duration r \<noteq> 0
                  then ni_dhcp6_fsm_set_timeout_msec dev1 (retrans_duration r)
                  else dev1))"

text \<open>\<open>memset(&dev->retrans, 0, sizeof(dev->retrans))\<close>.\<close>

definition timeval_zero :: timeval where
  "timeval_zero = \<lparr>tv_sec = 0, tv_usec = 0\<rparr>"

definition retrans_zero :: ni_dhcp6_retrans where
  "retrans_zero =
     \<lparr>retrans_delay = 0, retrans_jitter = 0, retrans_duration = 0,
      retrans_start = timeval_zero, retrans_deadline = timeval_zero, retrans_count = 0,
      retrans_params = \<lparr>tp_nretries = 0, tp_timeout = 0,
                         tp_jitter = \<lparr>range_min = 0, range_max = 0\<rparr>\<rparr>\<rparr>"

definition ni_dhcp6_device_retransmit_disarm :: "ni_dhcp6_device \<Rightarrow> ni_dhcp6_device" where
  "ni_dhcp6_device_retransmit_disarm dev = dev\<lparr>dev_xid := 0, dev_retrans := retrans_zero\<rparr>"

definition ni_dhcp6_device_retransmit_advance ::
  "ni_env \<Rightarrow> ni_dhcp6_device \<Rightarrow> bool \<times> ni_dhcp6_device" where
  "ni_dhcp6_device_retransmit_advance e dev =
     (let r = dev_retrans dev;
          (continue, params) = env_recompute e (retrans_params r)
      in if continue
         then (let params1 = params\<lparr>tp_jitter :=
                       env_jitter_rebase e (tp_timeout params) (0 - retrans_jitter r) (0 + retrans_jitter r)\<rparr>;
                   (rt, deadline) = env_arm_msec e params1
               in (True, dev\<lparr>dev_retrans := r\<lparr>retrans_deadline := deadline,
                                  retrans_params := params1\<lparr>tp_timeout := rt\<rparr>\<rparr>\<rparr>))
         else (False, dev\<lparr>dev_retrans := r\<lparr>retrans_params := params\<rparr>\<rparr>))"

definition ni_dhcp6_device_retransmit :: "ni_env \<Rightarrow> ni_dhcp6_device \<Rightarrow> int \<times> ni_dhcp6_device" where
  "ni_dhcp6_device_retransmit e dev =
     (let (advanced, dev1) = ni_dhcp6_device_retransmit_advance e dev
      in if \<not> advanced then (- 1, ni_dhcp6_device_retransmit_disarm dev1)
         else (let (rv, dev2) = env_fsm_retransmit e dev1
               in if rv < 0 then (- 1, dev2) else (0, dev2)))"

section \<open>Send path\<close>

definition ni_dhcp6_device_transmit :: "ni_env \<Rightarrow> ni_dhcp6_device \<Rightarrow> int \<times> ni_dhcp6_device" where
  "ni_dhcp6_device_transmit e dev =
     (if ni_buffer_count (dev_message dev) = 0 then (- 1, dev)
      else (let rv = env_socket_send e (buf_bytes (dev_message dev));
                dev1 = dev\<lparr>dev_effects := dev_effects dev @ [SocketSend (buf_bytes (dev_message dev))]\<rparr>
            in if rv < 0 \<or> rv \<noteq> int (ni_buffer_count (dev_message dev1))
               then (- 1, ni_dhcp6_device_clear_buffer (ni_dhcp6_mcast_socket_close dev1))
               else (0, ni_dhcp6_device_clear_buffer
                          (dev1\<lparr>dev_retrans := (dev_retrans dev1)\<lparr>retrans_count :=
                                                  retrans_count (dev_retrans dev1) + 1\<rparr>\<rparr>))))"



section \<open>IAID derivation\<close>

text \<open>
  A 32-bit object as its four bytes in memory and back, on a little-endian host: this is
  what \<open>memcpy\<close> to and from a \<open>uint32_t\<close> does there.
\<close>

definition bytes_of_u32 :: "u32 \<Rightarrow> u8 list" where
  "bytes_of_u32 w = [ucast w, ucast (drop_bit 8 w), ucast (drop_bit 16 w), ucast (drop_bit 24 w)]"

fun le32 :: "u8 list \<Rightarrow> u32" where
  "le32 [] = 0"
| "le32 (b # bs) = ucast b OR push_bit 8 (le32 bs)"

text \<open>\<open>memcpy(&w, src, n)\<close> for \<open>n \<le> 4\<close>: the first \<open>n\<close> bytes of the object are replaced,
  the others keep what the object held.\<close>

definition memcpy_u32 :: "u32 \<Rightarrow> u8 list \<Rightarrow> nat \<Rightarrow> u32" where
  "memcpy_u32 w src n = le32 (take n src @ drop n (bytes_of_u32 w))"

definition byte_of_char :: "char \<Rightarrow> u8" where
  "byte_of_char c = of_nat (of_char c)"

text \<open>
  \<open>ni_dhcp6_device_iaid\<close> returns a status and writes \<open>*iaid\<close>; the model returns both,
  \<open>iaid0\<close> being what \<open>*iaid\<close> held before the call. The local \<open>tmp\<close> is not initialised
  in the source: \<open>tmp0\<close> is what its storage holds when the function is entered.
\<close>

definition ni_dhcp6_device_iaid ::
  "ni_env \<Rightarrow> u32 \<Rightarrow> ni_dhcp6_device \<Rightarrow> u32 \<Rightarrow> int \<times> u32" where
  "ni_dhcp6_device_iaid e tmp0 dev iaid0 =
     (case ni_netdev_by_index (env_nc e) (dev_ifindex dev) of
        None \<Rightarrow> (- 1, iaid0)
      | Some ifp \<Rightarrow>
          (let iaid = 0 in
           if length (nd_hwaddr ifp) > 4
           then (let off = length (nd_hwaddr ifp) - 4
                 in (0, memcpy_u32 iaid (drop off (nd_hwaddr ifp)) 4))
           else (let len = length (dev_ifname dev)
                 in if len \<noteq> 0
                    then (let tmp = memcpy_u32 tmp0 (map byte_of_char (dev_ifname dev)) (len mod 4);
                              iaid1 = iaid XOR tmp;
                              iaid2 = (case nd_vlan_tag ifp of
                                         Some tag \<Rightarrow> if tag > 0 then iaid1 XOR ucast tag else iaid1
                                       | None \<Rightarrow> iaid1)
                          in (0, iaid2 XOR dev_ifindex dev))
                    else (- 1, iaid))))"

section \<open>Readiness: the link-local source address\<close>

text \<open>Modelled from the spec: \<open>ni_address_is_linklocal\<close> is not part of this file. A
  link-local address is an IPv6 address in \<open>fe80::/10\<close>.\<close>

definition ni_address_is_linklocal :: "ni_address \<Rightarrow> bool" where
  "ni_address_is_linklocal a =
     (case ss_bytes (addr_local_addr a) of
        b0 # b1 # _ \<Rightarrow> addr_family a = AF_INET6 \<and> b0 = 0xfe \<and> b1 AND 0xc0 = 0x80
      | _ \<Rightarrow> False)"

definition ni_dhcp6_device_set_lladdr ::
  "ni_dhcp6_device \<Rightarrow> ni_address \<Rightarrow> int \<times> ni_dhcp6_device" where
  "ni_dhcp6_device_set_lladdr dev addr =
     (if addr_duplicate addr then (- 1, dev)
      else if addr_tentative addr then (1, dev)
      else (0, dev\<lparr>dev_link_addr := addr_local_addr addr\<rparr>))"

text \<open>The loop of \<open>ni_dhcp6_device_find_lladdr\<close> over \<open>ifp->addrs\<close>, \<open>rv\<close> being the loop
  variable of that name (\<open>cnt\<close> only selects a debug message).\<close>

fun find_lladdr_loop :: "ni_dhcp6_device \<Rightarrow> ni_address list \<Rightarrow> int \<Rightarrow> int \<times> ni_dhcp6_device" where
  "find_lladdr_loop dev [] rv = (rv, dev)"
| "find_lladdr_loop dev (addr # addrs) rv =
     (if addr_family addr \<noteq> AF_INET6 \<or> \<not> ni_address_is_linklocal addr
      then find_lladdr_loop dev addrs rv
      else (let (rv1, dev1) = ni_dhcp6_device_set_lladdr dev addr
            in if rv1 = 0 then (0, dev1) else find_lladdr_loop dev1 addrs rv1))"

definition ni_dhcp6_device_find_lladdr :: "ni_env \<Rightarrow> ni_dhcp6_device \<Rightarrow> int \<times> ni_dhcp6_device" where
  "ni_dhcp6_device_find_lladdr e dev =
     (case ni_netdev_by_index (env_nc e) (dev_ifindex dev) of
        None \<Rightarrow> (- 1, dev)
      | Some ifp \<Rightarrow>
          if \<not> nd_link_up ifp then (- 1, dev)
          else find_lladdr_loop dev (nd_addrs ifp) 1)"

section \<open>Client DUID\<close>

text \<open>The hardware types of \<^verbatim>\<open><net/if_arp.h>\<close> that \<open>ni_dhcp6_generate_duid\<close> accepts.\<close>

definition ARPHRD_ETHER :: nat where "ARPHRD_ETHER = 1"
definition ARPHRD_IEEE802 :: nat where "ARPHRD_IEEE802 = 6"
definition ARPHRD_INFINIBAND :: nat where "ARPHRD_INFINIBAND = 32"

fun generate_duid_others :: "ni_env \<Rightarrow> u32 \<Rightarrow> ni_netdev list \<Rightarrow> u8 list option" where
  "generate_duid_others e ifindex [] = None"
| "generate_duid_others e ifindex (ifp # ifps) =
     (if nd_ifindex ifp = ifindex then generate_duid_others e ifindex ifps
      else if (nd_arp_type ifp = ARPHRD_ETHER \<or> nd_arp_type ifp = ARPHRD_IEEE802
                 \<or> nd_arp_type ifp = ARPHRD_INFINIBAND) \<and> nd_hwaddr ifp \<noteq> []
      then (case env_duid_init_llt e (nd_arp_type ifp) (nd_hwaddr ifp) of
              Some d \<Rightarrow> Some d
            | None \<Rightarrow> generate_duid_others e ifindex ifps)
      else generate_duid_others e ifindex ifps)"

definition ni_dhcp6_generate_duid :: "ni_env \<Rightarrow> ni_dhcp6_device \<Rightarrow> u8 list \<Rightarrow> u8 list" where
  "ni_dhcp6_generate_duid e dev duid =
     (case ni_netdev_by_index (env_nc e) (dev_ifindex dev) of
        None \<Rightarrow> duid
      | Some ifp \<Rightarrow>
          (case (if nd_hwaddr ifp \<noteq> []
                 then env_duid_init_llt e (nd_arp_type ifp) (nd_hwaddr ifp) else None) of
             Some d \<Rightarrow> d
           | None \<Rightarrow>
               (case generate_duid_others e (dev_ifindex dev) (case env_nc e of Some l \<Rightarrow> l | None \<Rightarrow> []) of
                  Some d \<Rightarrow> d
                | None \<Rightarrow> env_duid_init_uuid e)))"

definition ni_dhcp6_config_default_duid :: "ni_env \<Rightarrow> u8 list \<Rightarrow> u8 list" where
  "ni_dhcp6_config_default_duid e duid =
     (if env_default_duid e = [] then duid
      else (case env_duid_parse_hex e (env_default_duid e) of None \<Rightarrow> duid | Some d \<Rightarrow> d))"

text \<open>\<open>ni_dhcp6_config_init_duid\<close>: the result, the DUID left in the config, and whether
  \<open>ni_dhcp6_save_duid\<close> was called.\<close>

definition ni_dhcp6_config_init_duid ::
  "ni_env \<Rightarrow> ni_dhcp6_device \<Rightarrow> u8 list \<Rightarrow> string option \<Rightarrow> bool \<times> u8 list \<times> bool" where
  "ni_dhcp6_config_init_duid e dev duid0 preferred =
     (let d1 = (case preferred of
                  None \<Rightarrow> duid0
                | Some s \<Rightarrow> (case env_duid_parse_hex e s of None \<Rightarrow> duid0 | Some d \<Rightarrow> d));
          d2 = (if length d1 = 0 then ni_dhcp6_config_default_duid e d1 else d1);
          (d3, save) = (if length d2 = 0
                        then (let (rv, d) = env_load_duid e d2 in (d, rv \<noteq> 0))
                        else (d2, True));
          d4 = (if length d3 = 0 then ni_dhcp6_generate_duid e dev d3 else d3)
      in (length d4 > 0, d4, length d4 > 0 \<and> save))"

section \<open>Configuration and acquire\<close>

text \<open>\<open>xcalloc(1, sizeof(*config))\<close>.\<close>

definition config_zero :: ni_dhcp6_config where
  "config_zero =
     \<lparr>cfg_uuid = [], cfg_update = 0, cfg_info_only = False, cfg_rapid_commit = False,
      cfg_lease_time = 0, cfg_client_duid = [], cfg_ia_list = [], cfg_hostname = [],
      cfg_user_class = [], cfg_vendor_class_en = 0, cfg_vendor_class_data = [],
      cfg_vendor_opts_en = 0, cfg_vendor_opts_data = []\<rparr>"

definition ni_dhcp6_device_config_free ::
  "ni_dhcp6_config option \<Rightarrow> ni_dhcp6_device \<Rightarrow> ni_dhcp6_device" where
  "ni_dhcp6_device_config_free config dev =
     (case config of
        None \<Rightarrow> dev
      | Some c \<Rightarrow> dev\<lparr>dev_effects := dev_effects dev @ [ConfigFree c]\<rparr>)"

definition ni_dhcp6_device_set_config ::
  "ni_dhcp6_device \<Rightarrow> ni_dhcp6_config option \<Rightarrow> ni_dhcp6_device" where
  "ni_dhcp6_device_set_config dev config =
     (let dev1 = (if dev_config dev \<noteq> None
                  then ni_dhcp6_device_config_free (dev_config dev) dev else dev)
      in dev1\<lparr>dev_config := config\<rparr>)"

definition NI_DHCP6_VENDOR_ENTERPRISE_NUMBER :: nat where
  "NI_DHCP6_VENDOR_ENTERPRISE_NUMBER = 7075"

definition NI_DHCP6_WAIT_READY_MSEC :: nat where
  "NI_DHCP6_WAIT_READY_MSEC = 2000"

definition ni_dhcp6_config_vendor_class :: "ni_env \<Rightarrow> ni_dhcp6_config \<Rightarrow> ni_dhcp6_config" where
  "ni_dhcp6_config_vendor_class e config =
     (if env_vendor_class_en e \<noteq> 0
      then config\<lparr>cfg_vendor_class_en := env_vendor_class_en e,
                  cfg_vendor_class_data := env_vendor_class_data e\<rparr>
      else config\<lparr>cfg_vendor_class_en := NI_DHCP6_VENDOR_ENTERPRISE_NUMBER,
                  cfg_vendor_class_data := [env_vendor_version_string e]\<rparr>)"

text \<open>Modelled from the spec: \<open>ni_var_array_set\<close> is not part of this file. The vendor
  options are an ordered mapping from option name to value.\<close>

fun ni_var_array_set :: "(string \<times> string) list \<Rightarrow> string \<Rightarrow> string \<Rightarrow> (string \<times> string) list" where
  "ni_var_array_set [] name v = [(name, v)]"
| "ni_var_array_set ((n, w) # nva) name v =
     (if n = name then (n, v) # nva else (n, w) # ni_var_array_set nva name v)"

fun vendor_opts_loop :: "(string \<times> string) list \<Rightarrow> (string \<times> string) list \<Rightarrow> (string \<times> string) list" where
  "vendor_opts_loop [] vopts = vopts"
| "vendor_opts_loop ((name, v) # nva) vopts =
     (if name = [] then vendor_opts_loop nva vopts
      else vendor_opts_loop nva (ni_var_array_set vopts name v))"

definition ni_dhcp6_config_vendor_opts :: "ni_env \<Rightarrow> ni_dhcp6_config \<Rightarrow> ni_dhcp6_config" where
  "ni_dhcp6_config_vendor_opts e config =
     (if env_vendor_opts_en e \<noteq> 0
      then config\<lparr>cfg_vendor_opts_en := env_vendor_opts_en e,
                  cfg_vendor_opts_data := vendor_opts_loop (env_vendor_opts_data e) []\<rparr>
      else config\<lparr>cfg_vendor_opts_en := 0, cfg_vendor_opts_data := []\<rparr>)"

definition ni_dhcp6_device_start :: "ni_env \<Rightarrow> ni_dhcp6_device \<Rightarrow> int \<times> ni_dhcp6_device" where
  "ni_dhcp6_device_start e dev =
     (if dev_config dev = None then (- 1, dev)
      else env_fsm_start e (ni_dhcp6_device_alloc_buffer e (dev\<lparr>dev_failed := False\<rparr>)))"

text \<open>
  The part of \<open>ni_dhcp6_acquire\<close> between the DUID check and the readiness scan: the IA
  list, the hostname, the vendor class and the vendor options of the nascent config.
  \<open>strncpy\<close> into the zeroed \<open>config->hostname\<close> copies at most
  \<open>sizeof(config->hostname) - 1\<close> characters.
\<close>

definition acquire_config ::
  "ni_env \<Rightarrow> ni_dhcp6_device \<Rightarrow> ni_dhcp6_request \<Rightarrow> ni_dhcp6_config \<Rightarrow> ni_dhcp6_config" where
  "acquire_config e dev info config1 =
     (let config2 =
            (if \<not> cfg_info_only config1
             then (case req_ia_list info of
                     None \<Rightarrow> config1\<lparr>cfg_ia_list := cfg_ia_list config1 @
                                [env_ia_set_default_lifetimes e (env_ia_na_new e (dev_iaid dev))
                                   (cfg_lease_time config1)]\<rparr>
                   | Some ias \<Rightarrow> config1\<lparr>cfg_ia_list := env_ia_list_copy e ias\<rparr>)
             else config1);
          hostname = (case req_hostname info of None \<Rightarrow> [] | Some h \<Rightarrow> h);
          config3 =
            (if length hostname > 0 \<and> env_check_domain_name e hostname
             then config2\<lparr>cfg_hostname := take (env_hostname_size e - 1) hostname\<rparr>
             else config2);
          config4 = ni_dhcp6_config_vendor_class e config3
      in ni_dhcp6_config_vendor_opts e config4)"

text \<open>
  \<open>ni_dhcp6_acquire\<close>. \<open>ni_dhcp6_device_show_addrs\<close> changes nothing (its body is compiled
  out) and is left out.
\<close>

definition ni_dhcp6_acquire ::
  "ni_env \<Rightarrow> ni_dhcp6_device \<Rightarrow> ni_dhcp6_request \<Rightarrow> int \<times> ni_dhcp6_device" where
  "ni_dhcp6_acquire e dev info =
     (let config = config_zero\<lparr>cfg_uuid := req_uuid info, cfg_update := req_update info,
                     cfg_info_only := req_info_only info,
                     cfg_rapid_commit := req_rapid_commit info,
                     cfg_lease_time := env_preferred_lifetime e\<rparr>;
          (ok, duid, saved) =
             ni_dhcp6_config_init_duid e dev (cfg_client_duid config) (req_clientid info);
          config1 = config\<lparr>cfg_client_duid := duid\<rparr>;
          dev1 = (if saved then dev\<lparr>dev_effects := dev_effects dev @ [DuidSave duid]\<rparr> else dev)
      in if \<not> ok then (- 1, ni_dhcp6_device_config_free (Some config1) dev1)
         else
          (let config5 = acquire_config e dev1 info config1;
               (rv, dev2) = ni_dhcp6_device_find_lladdr e dev1
           in if rv < 0 then (rv, ni_dhcp6_device_config_free (Some config5) dev2)
              else
               (let dev3 = ni_dhcp6_device_set_config dev2 (Some config5)
                in if rv > 0
                   then (rv, (ni_dhcp6_fsm_set_timeout_msec
                                (dev3\<lparr>dev_fsm_state := NI_DHCP6_STATE_WAIT_READY\<rparr>)
                                NI_DHCP6_WAIT_READY_MSEC)\<lparr>dev_fsm_fail_on_timeout := True\<rparr>)
                   else ni_dhcp6_device_start e dev3)))"

section \<open>Ignore-server check\<close>

text \<open>
  \<open>inet_ntop(AF_INET, src, ...)\<close> reads four bytes at \<open>src\<close> and prints them in dotted
  decimal. \<open>ni_dhcp6_config_ignore_server\<close> hands it the sixteen bytes of a
  \<open>struct in6_addr\<close> (a list of fewer than four bytes is no address at all).
\<close>

definition dec_digit :: "nat \<Rightarrow> char" where
  "dec_digit n = char_of (48 + n)"

definition dec_byte :: "u8 \<Rightarrow> string" where
  "dec_byte b =
     (let n = unat b
      in if n < 10 then [dec_digit n]
         else if n < 100 then [dec_digit (n div 10), dec_digit (n mod 10)]
         else [dec_digit (n div 100), dec_digit ((n div 10) mod 10), dec_digit (n mod 10)])"

definition inet_ntop_AF_INET :: "u8 list \<Rightarrow> string" where
  "inet_ntop_AF_INET src =
     (case src of
        b0 # b1 # b2 # b3 # _ \<Rightarrow>
          dec_byte b0 @ ''.'' @ dec_byte b1 @ ''.'' @ dec_byte b2 @ ''.'' @ dec_byte b3
      | _ \<Rightarrow> [])"

text \<open>
  Modelled from the spec: \<open>ni_string_array_index\<close> is not part of this file. The spec
  compares the text of the candidate against the entries of the ignore list; the result
  is the index of the first entry equal to the string, or \<open>-1\<close>. How two strings are
  compared is the parameter \<open>eq\<close>.
\<close>

fun ni_string_array_index :: "(string \<Rightarrow> string \<Rightarrow> bool) \<Rightarrow> string list \<Rightarrow> string \<Rightarrow> int" where
  "ni_string_array_index eq [] str = - 1"
| "ni_string_array_index eq (x # xs) str =
     (if eq x str then 0
      else (let i = ni_string_array_index eq xs str in if i < 0 then - 1 else i + 1))"

definition ni_dhcp6_config_ignore_server :: "ni_env \<Rightarrow> u8 list \<Rightarrow> bool" where
  "ni_dhcp6_config_ignore_server e addr =
     (let astr = inet_ntop_AF_INET addr
      in ni_string_array_index (env_streq e) (env_ignore_servers e) astr \<ge> 0)"

section \<open>Notions used in the statements\<close>

subsection \<open>Sequences of scheduler operations\<close>








subsection \<open>What the spec says of the timeout helpers\<close>


definition timeval_add_msec :: "timeval \<Rightarrow> nat \<Rightarrow> timeval" where
  "timeval_add_msec tv msec =
     (let s = tv_sec tv + int (msec div 1000); u = tv_usec tv + int (msec mod 1000) * 1000
      in if u \<ge> 1000000 then \<lparr>tv_sec = s + 1, tv_usec = u - 1000000\<rparr>
         else \<lparr>tv_sec = s, tv_usec = u\<rparr>)"

text \<open>
  Modelled from the spec: \<open>ni_timeout_arm_msec\<close> is not part of this file. The spec has
  \<open>RT = IRT + RAND*IRT\<close> with the randomization taken from the jitter window, never at its
  lower end, and the deadline at \<open>now + RT\<close>.
\<close>

definition arm_msec_in_window :: "ni_env \<Rightarrow> bool" where
  "arm_msec_in_window e =
     (\<forall>tp. (0 \<le> int (tp_timeout tp) + range_min (tp_jitter tp) \<and>
            range_min (tp_jitter tp) < range_max (tp_jitter tp) \<longrightarrow>
              int (tp_timeout tp) + range_min (tp_jitter tp) < int (fst (env_arm_msec e tp)) \<and>
              int (fst (env_arm_msec e tp)) \<le> int (tp_timeout tp) + range_max (tp_jitter tp)) \<and>
           snd (env_arm_msec e tp) = timeval_add_msec (env_now e) (fst (env_arm_msec e tp)))"

text \<open>
  Modelled from the spec: \<open>ni_dhcp6_jitter_rebase\<close> is not part of this file. The spec has
  the jitter as a magnitude in tenths of a percent of the current timeout: the bounds of
  the window are that share of the timeout, in milliseconds.
\<close>

definition jitter_rebase_per_mille :: "ni_env \<Rightarrow> bool" where
  "jitter_rebase_per_mille e =
     (\<forall>msec lower upper.
        env_jitter_rebase e msec lower upper =
          \<lparr>range_min = c_div (int msec * lower) 1000, range_max = c_div (int msec * upper) 1000\<rparr>)"

subsection \<open>Link-local addresses of an interface\<close>

text \<open>The addresses the readiness scan looks at, in the order of the scan.\<close>

definition is_lladdr :: "ni_address \<Rightarrow> bool" where
  "is_lladdr a = (addr_family a = AF_INET6 \<and> ni_address_is_linklocal a)"

definition lladdrs :: "ni_netdev \<Rightarrow> ni_address list" where
  "lladdrs ifp = filter is_lladdr (nd_addrs ifp)"

definition addr_usable :: "ni_address \<Rightarrow> bool" where
  "addr_usable a = (\<not> addr_duplicate a \<and> \<not> addr_tentative a)"

subsection \<open>The two halves of acquire\<close>

text \<open>
  What \<open>ni_dhcp6_acquire\<close> has built when it reaches the readiness scan: the device after
  the DUID step (\<open>ni_dhcp6_save_duid\<close> may have been called) and the nascent config.
\<close>

definition after_duid :: "ni_env \<Rightarrow> ni_dhcp6_device \<Rightarrow> ni_dhcp6_request \<Rightarrow> ni_dhcp6_device" where
  "after_duid e dev info =
     (let (ok, duid, saved) = ni_dhcp6_config_init_duid e dev [] (req_clientid info)
      in if saved then dev\<lparr>dev_effects := dev_effects dev @ [DuidSave duid]\<rparr> else dev)"

definition nascent_config :: "ni_env \<Rightarrow> ni_dhcp6_device \<Rightarrow> ni_dhcp6_request \<Rightarrow> ni_dhcp6_config" where
  "nascent_config e dev info =
     (let (ok, duid, saved) = ni_dhcp6_config_init_duid e dev [] (req_clientid info)
      in acquire_config e (after_duid e dev info) info
           (config_zero\<lparr>cfg_uuid := req_uuid info, cfg_update := req_update info,
                        cfg_info_only := req_info_only info,
                        cfg_rapid_commit := req_rapid_commit info,
                        cfg_lease_time := env_preferred_lifetime e,
                        cfg_client_duid := duid\<rparr>))"

subsection \<open>Case-insensitive comparison\<close>

definition char_lower :: "char \<Rightarrow> char" where
  "char_lower c =
     (let n = (of_char c :: nat) in if 65 \<le> n \<and> n \<le> 90 then char_of (n + 32) else c)"

definition strcaseeq :: "string \<Rightarrow> string \<Rightarrow> bool" where
  "strcaseeq a b = (map char_lower a = map char_lower b)"

section \<open>Concrete inputs\<close>

text \<open>
  An interface \<open>eth0\<close> with index 3, VLAN tag 7, no hardware address and one usable
  link-local address \<open>fe80::1\<close>; an environment whose helpers draw the upper end of the
  jitter window, send whole messages, and whose FSM enters \<open>SELECTING\<close>; a freshly
  allocated device on that interface; and a request.
\<close>

definition example_lladdr :: ni_address where
  "example_lladdr =
     \<lparr>addr_family = AF_INET6,
      addr_local_addr = \<lparr>ss_family = AF_INET6,
                          ss_bytes = [0xfe, 0x80, 0, 0, 0, 0, 0, 0, 0, 0, 0, 0, 0, 0, 0, 1]\<rparr>,
      addr_tentative = False, addr_duplicate = False\<rparr>"

definition example_netdev :: ni_netdev where
  "example_netdev =
     \<lparr>nd_name = ''eth0'', nd_ifindex = 3, nd_arp_type = 1, nd_hwaddr = [],
      nd_vlan_tag = Some 7, nd_link_up = True, nd_network_up = True,
      nd_addrs = [example_lladdr]\<rparr>"

definition example_env :: ni_env where
  "example_env =
     \<lparr>env_now = \<lparr>tv_sec = 1000, tv_usec = 250000\<rparr>,
      env_nc = Some [example_netdev],
      env_randomize = (\<lambda>t r. nat (int t + range_max r)),
      env_jitter_rebase = (\<lambda>msec lower upper.
          \<lparr>range_min = c_div (int msec * lower) 1000, range_max = c_div (int msec * upper) 1000\<rparr>),
      env_arm_msec = (\<lambda>tp.
          (nat (int (tp_timeout tp) + range_max (tp_jitter tp)),
           timeval_add_msec \<lparr>tv_sec = 1000, tv_usec = 250000\<rparr>
             (nat (int (tp_timeout tp) + range_max (tp_jitter tp))))),
      env_recompute = (\<lambda>tp. (tp_nretries tp \<noteq> 0, tp\<lparr>tp_timeout := 2 * tp_timeout tp\<rparr>)),
      env_socket_send = (\<lambda>bytes. int (length bytes)),
      env_fsm_retransmit = (\<lambda>dev. (0, dev)),
      env_fsm_start = (\<lambda>dev. (0, dev\<lparr>dev_fsm_state := NI_DHCP6_STATE_SELECTING\<rparr>)),
      env_buffer_ensure_tailroom = (\<lambda>b n. b\<lparr>buf_size := length (buf_bytes b) + n\<rparr>),
      env_wbuf_size = 1280,
      env_duid_parse_hex = (\<lambda>s. None),
      env_load_duid = (\<lambda>d. (0, [0, 4, 1, 2, 3, 4])),
      env_duid_init_llt = (\<lambda>t hw. None),
      env_duid_init_uuid = [0, 4, 9, 9, 9, 9],
      env_ia_na_new = (\<lambda>iaid. \<lparr>ia_iaid = iaid, ia_renewal_time = 0, ia_rebind_time = 0\<rparr>),
      env_ia_set_default_lifetimes = (\<lambda>ia t. ia\<lparr>ia_renewal_time := t div 2, ia_rebind_time := t\<rparr>),
      env_ia_list_copy = (\<lambda>ias. ias),
      env_check_domain_name = (\<lambda>s. True),
      env_hostname_size = 256,
      env_preferred_lifetime = 36000,
      env_vendor_version_string = ''wicked-dhcp6/0.0.0'',
      env_default_duid = [],
      env_vendor_class_en = 0,
      env_vendor_class_data = [],
      env_vendor_opts_en = 0,
      env_vendor_opts_data = [],
      env_ignore_servers = [''fe80::1''],
      env_streq = strcaseeq\<rparr>"

definition example_device :: ni_dhcp6_device where
  "example_device =
     \<lparr>dev_ifname = ''eth0'', dev_ifindex = 3,
      dev_link_addr = \<lparr>ss_family = AF_UNSPEC, ss_bytes = []\<rparr>,
      dev_iaid = 4, dev_xid = 0,
      dev_message = \<lparr>buf_bytes = [], buf_size = 0\<rparr>,
      dev_mcast_open = True,
      dev_retrans = retrans_zero,
      dev_fsm_state = NI_DHCP6_STATE_INIT, dev_fsm_timer = None,
      dev_fsm_fail_on_timeout = False, dev_failed = False,
      dev_config = None, dev_request = None, dev_lease = None, dev_effects = []\<rparr>"

definition example_request :: ni_dhcp6_request where
  "example_request =
     \<lparr>req_uuid = [], req_update = 0, req_info_only = False, req_rapid_commit = False,
      req_clientid = None, req_hostname = None, req_ia_list = None\<rparr>"

text \<open>The retransmission state of a first Solicit: \<open>IRT\<close> 1000 ms, jitter base 100, one
  message sent.\<close>

definition example_solicit :: ni_dhcp6_device where
  "example_solicit =
     example_device\<lparr>dev_fsm_state := NI_DHCP6_STATE_SELECTING,
       dev_retrans := retrans_zero\<lparr>retrans_jitter := 100, retrans_count := 1,
         retrans_params := \<lparr>tp_nretries = - 1, tp_timeout = 1000,
                            tp_jitter = \<lparr>range_min = 0, range_max = 0\<rparr>\<rparr>\<rparr>\<rparr>"

text \<open>A device whose current exchange started 9.75 s before the clock of the example
  environment.\<close>

definition example_started :: ni_dhcp6_device where
  "example_started =
     example_device\<lparr>dev_retrans := retrans_zero\<lparr>retrans_start := \<lparr>tv_sec = 990, tv_usec = 500000\<rparr>\<rparr>\<rparr>"

text \<open>The first Solicit with a four-byte message in the outbound buffer.\<close>

definition example_message :: ni_dhcp6_device where
  "example_message = example_solicit\<lparr>dev_message := \<lparr>buf_bytes = [1, 0xab, 0xcd, 0xef], buf_size = 1280\<rparr>\<rparr>"

text \<open>The first Solicit with retransmissions not enabled (\<open>nretries = 0\<close>), and a Renew
  about to be sent for the first time with a maximum retransmission duration of 30 s.\<close>

definition example_no_retries :: ni_dhcp6_device where
  "example_no_retries =
     example_solicit\<lparr>dev_retrans := (dev_retrans example_solicit)\<lparr>retrans_params :=
        \<lparr>tp_nretries = 0, tp_timeout = 1000, tp_jitter = \<lparr>range_min = 0, range_max = 0\<rparr>\<rparr>\<rparr>\<rparr>"

definition example_renew :: ni_dhcp6_device where
  "example_renew =
     example_solicit\<lparr>dev_fsm_state := NI_DHCP6_STATE_RENEWING,
        dev_retrans := (dev_retrans example_solicit)\<lparr>retrans_count := 0, retrans_duration := 30000\<rparr>\<rparr>"



text \<open>The link-local address of the example flagged duplicate, and flagged tentative; the
  example environment with a given address list on the interface.\<close>

definition example_duplicate :: ni_address where
  "example_duplicate = example_lladdr\<lparr>addr_duplicate := True\<rparr>"

definition example_tentative :: ni_address where
  "example_tentative = example_lladdr\<lparr>addr_tentative := True\<rparr>"

definition example_env_addrs :: "ni_address list \<Rightarrow> ni_env" where
  "example_env_addrs addrs = example_env\<lparr>env_nc := Some [example_netdev\<lparr>nd_addrs := addrs\<rparr>]\<rparr>"

text \<open>The sixteen bytes of the server address \<open>fe80::1\<close>.\<close>

definition example_server :: "u8 list" where
  "example_server = [0xfe, 0x80, 0, 0, 0, 0, 0, 0, 0, 0, 0, 0, 0, 0, 0, 1]"

section \<open>Uptime\<close>

lemma c_div_nonneg: "0 \<le> a \<Longrightarrow> 0 < b \<Longrightarrow> c_div a b = a div b"
  by (cases "a = 0") (simp_all add: c_div_def)

lemma timersub_normal:
  "tv_normal a \<Longrightarrow> tv_normal b \<Longrightarrow> tv_normal (timersub a b)"
  by (auto simp: tv_normal_def timersub_def Let_def)

lemma timersub_usec_total:
  "tv_sec (timersub a b) * 1000000 + tv_usec (timersub a b)
     = (tv_sec a * 1000000 + tv_usec a) - (tv_sec b * 1000000 + tv_usec b)"
  by (simp add: timersub_def Let_def)

lemma timercmp_sec_nonneg:
  "tv_normal a \<Longrightarrow> tv_normal b \<Longrightarrow> timercmp_gt a b \<Longrightarrow> 0 \<le> tv_sec (timersub a b)"
  by (auto simp: tv_normal_def timersub_def timercmp_gt_def Let_def split: if_splits)

lemma centiseconds_floor:
  "tv_normal d \<Longrightarrow>
     tv_sec d * 100 + c_div (tv_usec d) 10000 = (tv_sec d * 1000000 + tv_usec d) div 10000"
  by (simp add: tv_normal_def c_div_nonneg)

lemma centiseconds_nonneg:
  assumes "tv_normal d" and "0 \<le> tv_sec d"
  shows "0 \<le> tv_sec d * 100 + c_div (tv_usec d) 10000"
proof -
  have "0 \<le> tv_usec d div 10000"
    using assms(1) by (simp add: tv_normal_def pos_imp_zdiv_nonneg_iff)
  then show ?thesis
    using assms by (simp add: tv_normal_def c_div_nonneg)
qed

lemma clamp_word:
  fixes clamp :: "32 word"
  assumes "0 \<le> u"
  shows "uint (if u < uint clamp then word_of_int u else clamp) = min (uint clamp) u"
proof (cases "u < uint clamp")
  case True
  have "uint clamp < 2 ^ 32" using uint_bounded [of clamp] by simp
  with True assms have "uint (word_of_int u :: 32 word) = u"
    by (simp add: uint_word_of_int take_bit_int_eq_self)
  with True show ?thesis by simp
next
  case False
  then show ?thesis by simp
qed

text \<open>
  Claim C8. For every device, clock value and clamp (the two \<open>struct timeval\<close>s holding
  microseconds within one second, as the clock returns them), \<open>ni_dhcp6_device_uptime\<close>
  never exceeds the clamp; it is 0 when \<open>retrans.start\<close> is unset or \<open>now\<close> is not later
  than it; otherwise it is the smaller of the clamp and
  \<open>delta.tv_sec * 100 + delta.tv_usec / 10000\<close>, which is the elapsed time in whole
  hundredths of a second.
\<close>

theorem uptime_centiseconds_clamped:
  assumes n: "tv_normal now" and s: "tv_normal (retrans_start (dev_retrans dev))"
  shows "(let start = retrans_start (dev_retrans dev);
              delta = timersub now start;
              r = ni_dhcp6_device_uptime now dev clamp
          in r \<le> clamp
           \<and> (\<not> timerisset start \<or> \<not> timercmp_gt now start \<longrightarrow> r = 0)
           \<and> (timerisset start \<and> timercmp_gt now start \<longrightarrow>
                uint r = min (uint clamp) (tv_sec delta * 100 + c_div (tv_usec delta) 10000)
              \<and> tv_sec delta * 100 + c_div (tv_usec delta) 10000
                  = ((tv_sec now * 1000000 + tv_usec now)
                      - (tv_sec start * 1000000 + tv_usec start)) div 10000))"
proof -
  define start where "start = retrans_start (dev_retrans dev)"
  define cs where "cs = tv_sec (timersub now start) * 100 + c_div (tv_usec (timersub now start)) 10000"
  define up where "up = (if timerisset start \<and> timercmp_gt now start then cs else 0)"
  have r: "ni_dhcp6_device_uptime now dev clamp
            = (if up < uint clamp then word_of_int up else clamp)"
    by (simp add: ni_dhcp6_device_uptime_def up_def cs_def start_def Let_def)
  have dn: "tv_normal (timersub now start)"
    using n s by (simp add: timersub_normal start_def)
  have up0: "0 \<le> up"
    using n s dn by (simp add: up_def cs_def centiseconds_nonneg timercmp_sec_nonneg start_def)
  have u: "uint (ni_dhcp6_device_uptime now dev clamp) = min (uint clamp) up"
    unfolding r using up0 by (rule clamp_word)
  have le: "ni_dhcp6_device_uptime now dev clamp \<le> clamp"
    by (simp add: word_le_def u)
  have z: "ni_dhcp6_device_uptime now dev clamp = 0"
    if "\<not> timerisset start \<or> \<not> timercmp_gt now start"
  proof -
    from that have "up = 0" by (auto simp: up_def)
    then have "uint (ni_dhcp6_device_uptime now dev clamp) = 0" using u by simp
    then show ?thesis by (simp add: word_uint_eq_iff)
  qed
  have e: "cs = ((tv_sec now * 1000000 + tv_usec now)
                - (tv_sec start * 1000000 + tv_usec start)) div 10000"
    unfolding cs_def using dn by (simp add: centiseconds_floor timersub_usec_total)
  have p: "uint (ni_dhcp6_device_uptime now dev clamp) = min (uint clamp) cs"
    if "timerisset start \<and> timercmp_gt now start"
    using u that by (simp add: up_def)
  show ?thesis
    using le z p e unfolding Let_def start_def [symmetric] cs_def [symmetric] by blast
qed

theorem uptime_centiseconds_clamped_witness:
  "tv_normal (env_now example_env) \<and> tv_normal (retrans_start (dev_retrans example_started))
   \<and> ni_dhcp6_device_uptime (env_now example_env) example_started 0xffff = 975
   \<and> ni_dhcp6_device_uptime (env_now example_env) example_started 100 = 100
   \<and> ni_dhcp6_device_uptime (env_now example_env) example_device 100 = 0"
proof -
  have n: "tv_normal (env_now example_env)"
    by (simp add: tv_normal_def example_env_def)
  have s: "tv_normal (retrans_start (dev_retrans example_started))"
    by (simp add: tv_normal_def example_started_def)
  have st: "timerisset (retrans_start (dev_retrans example_started))
          \<and> timercmp_gt (env_now example_env) (retrans_start (dev_retrans example_started))"
    by (simp add: timerisset_def timercmp_gt_def example_started_def example_env_def)
  have d: "timersub (env_now example_env) (retrans_start (dev_retrans example_started))
            = \<lparr>tv_sec = 9, tv_usec = 750000\<rparr>"
    by (simp add: timersub_def example_started_def example_env_def)
  have c: "c_div 750000 10000 = 75" by (simp add: c_div_def)
  have a: "uint (ni_dhcp6_device_uptime (env_now example_env) example_started 0xffff) = 975"
    using uptime_centiseconds_clamped [OF n s, of "0xffff"] st by (simp add: Let_def d c)
  have b: "uint (ni_dhcp6_device_uptime (env_now example_env) example_started 100) = 100"
    using uptime_centiseconds_clamped [OF n s, of 100] st by (simp add: Let_def d c)
  have z: "ni_dhcp6_device_uptime (env_now example_env) example_device 100 = 0"
    by (simp add: ni_dhcp6_device_uptime_def example_device_def retrans_zero_def
        timeval_zero_def timerisset_def)
  from a have a': "ni_dhcp6_device_uptime (env_now example_env) example_started 0xffff = 975"
    by (simp add: word_uint_eq_iff)
  from b have b': "ni_dhcp6_device_uptime (env_now example_env) example_started 100 = 100"
    by (simp add: word_uint_eq_iff)
  show ?thesis using n s a' b' z by simp
qed

section \<open>Setting the lease\<close>

text \<open>
  Claim C10. \<open>ni_dhcp6_device_set_lease\<close> called with the lease pointer the device
  already holds changes nothing: no free, no replacement. Called with another pointer it
  frees the prior lease and installs the new one. Applying it twice with the same
  argument equals applying it once.
\<close>

theorem set_lease_idempotent:
  "ni_dhcp6_device_set_lease dev (dev_lease dev) = dev
   \<and> (lease \<noteq> dev_lease dev \<longrightarrow>
        ni_dhcp6_device_set_lease dev lease
          = dev\<lparr>dev_lease := lease, dev_effects := dev_effects dev @ [LeaseFree (dev_lease dev)]\<rparr>)
   \<and> ni_dhcp6_device_set_lease (ni_dhcp6_device_set_lease dev lease) lease
        = ni_dhcp6_device_set_lease dev lease"
  by (auto simp: ni_dhcp6_device_set_lease_def ni_addrconf_dhcp6_lease_free_def)

theorem set_lease_idempotent_witness:
  "Some 2 \<noteq> dev_lease (example_device\<lparr>dev_lease := Some 1\<rparr>)
   \<and> ni_dhcp6_device_set_lease (example_device\<lparr>dev_lease := Some 1\<rparr>) (Some 2)
       = example_device\<lparr>dev_lease := Some 2, dev_effects := [LeaseFree (Some 1)]\<rparr>
   \<and> ni_dhcp6_device_set_lease (example_device\<lparr>dev_lease := Some 1\<rparr>) (Some 1)
       = example_device\<lparr>dev_lease := Some 1\<rparr>"
  using set_lease_idempotent [of "example_device\<lparr>dev_lease := Some 1\<rparr>" "Some 2"]
  by (simp add: example_device_def)

section \<open>Send path\<close>

text \<open>
  Claim C7. With a non-empty outbound buffer, \<open>ni_dhcp6_device_transmit\<close> on a send of
  the full length returns success, increments \<open>retrans.count\<close> by exactly one (as an
  \<open>unsigned int\<close>) and clears the buffer, keeping its storage; on a send error or a
  short write it returns an error, closes the multicast socket, clears the buffer and
  leaves \<open>retrans.count\<close> as it was. With an empty buffer it returns an error and
  changes nothing: nothing is sent.
\<close>

theorem transmit_counts_and_clears:
  "(let bytes = buf_bytes (dev_message dev);
        sent = env_socket_send e bytes;
        rv = fst (ni_dhcp6_device_transmit e dev);
        dev' = snd (ni_dhcp6_device_transmit e dev)
    in (bytes \<noteq> [] \<and> sent = int (length bytes) \<longrightarrow>
          rv = 0
        \<and> dev' = dev\<lparr>dev_message := (dev_message dev)\<lparr>buf_bytes := []\<rparr>,
                     dev_retrans := (dev_retrans dev)\<lparr>retrans_count := retrans_count (dev_retrans dev) + 1\<rparr>,
                     dev_effects := dev_effects dev @ [SocketSend bytes]\<rparr>
        \<and> buf_size (dev_message dev') = buf_size (dev_message dev))
     \<and> (bytes \<noteq> [] \<and> (sent < 0 \<or> sent \<noteq> int (length bytes)) \<longrightarrow>
          rv = - 1
        \<and> dev' = dev\<lparr>dev_message := (dev_message dev)\<lparr>buf_bytes := []\<rparr>,
                     dev_mcast_open := False,
                     dev_effects := dev_effects dev @ [SocketSend bytes, SocketClose]\<rparr>
        \<and> retrans_count (dev_retrans dev') = retrans_count (dev_retrans dev))
     \<and> (bytes = [] \<longrightarrow> rv = - 1 \<and> dev' = dev))"
  by (auto simp: ni_dhcp6_device_transmit_def ni_buffer_count_def Let_def
      ni_dhcp6_device_clear_buffer_def ni_buffer_clear_def ni_dhcp6_mcast_socket_close_def)

theorem transmit_counts_and_clears_witness:
  "buf_bytes (dev_message example_message) \<noteq> []
   \<and> env_socket_send example_env (buf_bytes (dev_message example_message)) = 4
   \<and> fst (ni_dhcp6_device_transmit example_env example_message) = 0
   \<and> retrans_count (dev_retrans (snd (ni_dhcp6_device_transmit example_env example_message))) = 2
   \<and> dev_message (snd (ni_dhcp6_device_transmit example_env example_message))
        = \<lparr>buf_bytes = [], buf_size = 1280\<rparr>
   \<and> env_socket_send (example_env\<lparr>env_socket_send := (\<lambda>bytes. 2)\<rparr>)
          (buf_bytes (dev_message example_message)) \<noteq> 4
   \<and> fst (ni_dhcp6_device_transmit (example_env\<lparr>env_socket_send := (\<lambda>bytes. 2)\<rparr>) example_message) = - 1
   \<and> \<not> dev_mcast_open (snd (ni_dhcp6_device_transmit
          (example_env\<lparr>env_socket_send := (\<lambda>bytes. 2)\<rparr>) example_message))
   \<and> retrans_count (dev_retrans (snd (ni_dhcp6_device_transmit
          (example_env\<lparr>env_socket_send := (\<lambda>bytes. 2)\<rparr>) example_message))) = 1
   \<and> ni_dhcp6_device_transmit example_env example_device = (- 1, example_device)"
proof -
  have b: "buf_bytes (dev_message example_message) = [1, 0xab, 0xcd, 0xef]"
    by (simp add: example_message_def)
  have c: "retrans_count (dev_retrans example_message) = 1"
    by (simp add: example_message_def example_solicit_def)
  have s: "env_socket_send example_env (buf_bytes (dev_message example_message)) = 4"
    by (simp add: b example_env_def)
  have m: "dev_message example_message = \<lparr>buf_bytes = [1, 0xab, 0xcd, 0xef], buf_size = 1280\<rparr>"
    by (simp add: example_message_def)
  have z: "buf_bytes (dev_message example_device) = []"
    by (simp add: example_device_def)
  note ok = transmit_counts_and_clears [of example_message example_env]
  note short = transmit_counts_and_clears
      [of example_message "example_env\<lparr>env_socket_send := (\<lambda>bytes. 2)\<rparr>"]
  note empty = transmit_counts_and_clears [of example_device example_env]
  have 1: "fst (ni_dhcp6_device_transmit example_env example_message) = 0
      \<and> retrans_count (dev_retrans (snd (ni_dhcp6_device_transmit example_env example_message))) = 2
      \<and> dev_message (snd (ni_dhcp6_device_transmit example_env example_message))
        = \<lparr>buf_bytes = [], buf_size = 1280\<rparr>"
    using ok s by (simp add: Let_def b c m)
  have 2: "fst (ni_dhcp6_device_transmit (example_env\<lparr>env_socket_send := (\<lambda>bytes. 2)\<rparr>) example_message) = - 1
   \<and> \<not> dev_mcast_open (snd (ni_dhcp6_device_transmit
          (example_env\<lparr>env_socket_send := (\<lambda>bytes. 2)\<rparr>) example_message))
   \<and> retrans_count (dev_retrans (snd (ni_dhcp6_device_transmit
          (example_env\<lparr>env_socket_send := (\<lambda>bytes. 2)\<rparr>) example_message))) = 1"
    using short by (simp add: Let_def b c)
  have 3: "ni_dhcp6_device_transmit example_env example_device = (- 1, example_device)"
    using empty by (simp add: Let_def z prod_eq_iff)
  show ?thesis using 1 2 3 s by (simp add: b)
qed

section \<open>Retransmit driver\<close>

text \<open>
  Claim C4. \<open>ni_dhcp6_device_retransmit\<close> first advances the backoff: it asks
  \<open>ni_timeout_recompute\<close> whether the exchange goes on. When it does not, the driver
  disarms (the whole retransmission block is zeroed and \<open>xid\<close> cleared) and returns an
  error. When it does, the recomputed parameters get the jitter window rebased on the new
  timeout, \<open>ni_timeout_arm_msec\<close> gives the next \<open>RT\<close> and deadline, and the device with
  that backoff is handed to \<open>ni_dhcp6_fsm_retransmit\<close>; the driver keeps the state the FSM
  leaves and returns success exactly when the FSM did not fail, an error exactly when it
  failed.
\<close>

theorem retransmit_driver:
  "(let r = dev_retrans dev;
        recomputed = env_recompute e (retrans_params r);
        params = snd recomputed;
        window = env_jitter_rebase e (tp_timeout params) (0 - retrans_jitter r) (0 + retrans_jitter r);
        armed = env_arm_msec e (params\<lparr>tp_jitter := window\<rparr>);
        dev1 = dev\<lparr>dev_retrans := r\<lparr>retrans_deadline := snd armed,
                  retrans_params := params\<lparr>tp_jitter := window, tp_timeout := fst armed\<rparr>\<rparr>\<rparr>;
        fsm = env_fsm_retransmit e dev1;
        rv = fst (ni_dhcp6_device_retransmit e dev);
        dev' = snd (ni_dhcp6_device_retransmit e dev)
    in (\<not> fst recomputed \<longrightarrow>
          rv = - 1 \<and> dev' = dev\<lparr>dev_xid := 0, dev_retrans := retrans_zero\<rparr>)
     \<and> (fst recomputed \<longrightarrow>
          dev' = snd fsm \<and> (rv = 0 \<longleftrightarrow> 0 \<le> fst fsm) \<and> (rv = - 1 \<longleftrightarrow> fst fsm < 0)))"
  by (auto simp: ni_dhcp6_device_retransmit_def ni_dhcp6_device_retransmit_advance_def
      ni_dhcp6_device_retransmit_disarm_def Let_def split: prod.splits)

theorem retransmit_driver_witness:
  "\<not> fst (env_recompute example_env (retrans_params (dev_retrans example_device)))
   \<and> ni_dhcp6_device_retransmit example_env (example_device\<lparr>dev_xid := 0x123456\<rparr>)
       = (- 1, example_device)
   \<and> fst (env_recompute example_env (retrans_params (dev_retrans example_solicit)))
   \<and> fst (ni_dhcp6_device_retransmit example_env example_solicit) = 0
   \<and> retrans_params (dev_retrans (snd (ni_dhcp6_device_retransmit example_env example_solicit)))
       = \<lparr>tp_nretries = - 1, tp_timeout = 2200, tp_jitter = \<lparr>range_min = - 200, range_max = 200\<rparr>\<rparr>
   \<and> retrans_deadline (dev_retrans (snd (ni_dhcp6_device_retransmit example_env example_solicit)))
       = \<lparr>tv_sec = 1002, tv_usec = 450000\<rparr>
   \<and> fst (ni_dhcp6_device_retransmit
            (example_env\<lparr>env_fsm_retransmit := (\<lambda>dev. (- 5, dev))\<rparr>) example_solicit) = - 1
   \<and> fst (ni_dhcp6_device_retransmit
            (example_env\<lparr>env_fsm_retransmit :=
               (\<lambda>dev. (int (tp_timeout (retrans_params (dev_retrans dev))) - 2200, dev))\<rparr>)
            example_solicit) = 0"
proof -
  have p0: "retrans_params (dev_retrans example_device)
      = \<lparr>tp_nretries = 0, tp_timeout = 0, tp_jitter = \<lparr>range_min = 0, range_max = 0\<rparr>\<rparr>"
    "retrans_params (dev_retrans (example_device\<lparr>dev_xid := 0x123456\<rparr>))
      = \<lparr>tp_nretries = 0, tp_timeout = 0, tp_jitter = \<lparr>range_min = 0, range_max = 0\<rparr>\<rparr>"
    by (simp_all add: example_device_def retrans_zero_def)
  have ps: "retrans_params (dev_retrans example_solicit)
      = \<lparr>tp_nretries = - 1, tp_timeout = 1000, tp_jitter = \<lparr>range_min = 0, range_max = 0\<rparr>\<rparr>"
    "retrans_jitter (dev_retrans example_solicit) = 100"
    by (simp_all add: example_solicit_def)
  have rc: "env_recompute (example_env\<lparr>env_fsm_retransmit := f\<rparr>) tp
      = (tp_nretries tp \<noteq> 0, tp\<lparr>tp_timeout := 2 * tp_timeout tp\<rparr>)"
    "env_recompute example_env tp = (tp_nretries tp \<noteq> 0, tp\<lparr>tp_timeout := 2 * tp_timeout tp\<rparr>)"
    for f tp
    by (simp_all add: example_env_def)
  have rb: "env_jitter_rebase (example_env\<lparr>env_fsm_retransmit := f\<rparr>) 2000 (- 100) 100
      = \<lparr>range_min = - 200, range_max = 200\<rparr>"
    "env_jitter_rebase example_env 2000 (- 100) 100 = \<lparr>range_min = - 200, range_max = 200\<rparr>"
    for f
    by (simp_all add: example_env_def c_div_def)
  let ?tp = "\<lparr>tp_nretries = - 1, tp_timeout = 2000, tp_jitter = \<lparr>range_min = - 200, range_max = 200\<rparr>\<rparr>"
  have am: "env_arm_msec (example_env\<lparr>env_fsm_retransmit := f\<rparr>) ?tp
      = (2200, \<lparr>tv_sec = 1002, tv_usec = 450000\<rparr>)"
    "env_arm_msec example_env ?tp = (2200, \<lparr>tv_sec = 1002, tv_usec = 450000\<rparr>)"
    for f
    by (simp_all add: example_env_def timeval_add_msec_def)
  have f0: "env_fsm_retransmit example_env = (\<lambda>dev. (0, dev))"
    by (simp add: example_env_def)
  have eq: "example_device\<lparr>dev_xid := 0, dev_retrans := retrans_zero\<rparr> = example_device"
    by (simp add: example_device_def)
  have 1: "ni_dhcp6_device_retransmit example_env (example_device\<lparr>dev_xid := 0x123456\<rparr>)
       = (- 1, example_device)"
    using retransmit_driver [where e = example_env and dev = "example_device\<lparr>dev_xid := 0x123456\<rparr>"]
    by (simp add: Let_def p0 rc prod_eq_iff eq)
  have 2: "fst (ni_dhcp6_device_retransmit example_env example_solicit) = 0
   \<and> retrans_params (dev_retrans (snd (ni_dhcp6_device_retransmit example_env example_solicit)))
       = \<lparr>tp_nretries = - 1, tp_timeout = 2200, tp_jitter = \<lparr>range_min = - 200, range_max = 200\<rparr>\<rparr>
   \<and> retrans_deadline (dev_retrans (snd (ni_dhcp6_device_retransmit example_env example_solicit)))
       = \<lparr>tv_sec = 1002, tv_usec = 450000\<rparr>"
    using retransmit_driver [where e = example_env and dev = example_solicit]
    by (simp add: Let_def ps rc rb am f0)
  have 3: "fst (ni_dhcp6_device_retransmit
            (example_env\<lparr>env_fsm_retransmit := (\<lambda>dev. (- 5, dev))\<rparr>) example_solicit) = - 1"
    using retransmit_driver [where e = "example_env\<lparr>env_fsm_retransmit := (\<lambda>dev. (- 5, dev))\<rparr>"
        and dev = example_solicit]
    by (simp add: Let_def ps rc)
  have 4: "fst (ni_dhcp6_device_retransmit
            (example_env\<lparr>env_fsm_retransmit :=
               (\<lambda>dev. (int (tp_timeout (retrans_params (dev_retrans dev))) - 2200, dev))\<rparr>)
            example_solicit) = 0"
    using retransmit_driver [where e = "example_env\<lparr>env_fsm_retransmit :=
               (\<lambda>dev. (int (tp_timeout (retrans_params (dev_retrans dev))) - 2200, dev))\<rparr>"
        and dev = example_solicit]
    by (simp add: Let_def ps rc rb am)
  show ?thesis using 1 2 3 4 by (simp add: p0 ps rc)
qed

section \<open>Arming the retransmission\<close>

text \<open>
  Claim C1, as stated, fails where retransmissions are not enabled: with
  \<open>params.nretries = 0\<close> the function returns after clearing the delay and recording the
  start time. In state \<open>SELECTING\<close> with \<open>count = 1\<close> the jitter window then stays as it
  was and no FSM timer is armed.
\<close>

theorem retransmit_arm_no_retries_counterexample:
  "dev_fsm_state example_no_retries = NI_DHCP6_STATE_SELECTING
   \<and> retrans_count (dev_retrans example_no_retries) = 1
   \<and> retrans_jitter (dev_retrans example_no_retries) = 100
   \<and> tp_timeout (retrans_params (dev_retrans example_no_retries)) = 1000
   \<and> env_jitter_rebase example_env 1000 0 100 = \<lparr>range_min = 0, range_max = 100\<rparr>
   \<and> tp_jitter (retrans_params (dev_retrans
         (ni_dhcp6_device_retransmit_arm example_env example_no_retries)))
        = \<lparr>range_min = 0, range_max = 0\<rparr>
   \<and> dev_fsm_timer (ni_dhcp6_device_retransmit_arm example_env example_no_retries) = None"
  by (simp add: ni_dhcp6_device_retransmit_arm_def example_no_retries_def example_solicit_def
      example_device_def example_env_def retrans_zero_def c_div_def Let_def)

lemma c_div_neg_left: "c_div (a * (0 - b)) c = - c_div (a * b) c"
  by (simp add: c_div_def sgn_mult abs_mult)

lemma c_div_per_mille:
  assumes "0 \<le> a" and "0 \<le> b"
  shows "c_div (a * b) 1000 = (a * b) div 1000"
  using assms c_div_nonneg [of "a * b" 1000] by simp

lemma tenth_of_timeout:
  fixes irt jb :: int
  assumes "0 \<le> irt" and "jb \<le> 100"
  shows "10 * ((irt * jb) div 1000) \<le> irt"
proof -
  have "irt * jb \<le> irt * 100" using assms by (simp add: mult_left_mono)
  then have "(irt * jb) div 1000 \<le> (irt * 100) div 1000" by (rule zdiv_mono1) simp
  also have "(irt * 100) div 1000 = irt div 10" by simp
  finally have "10 * ((irt * jb) div 1000) \<le> 10 * (irt div 10)" by simp
  also have "10 * (irt div 10) \<le> irt" by simp
  finally show ?thesis .
qed

text \<open>
  Claim C1, amended. \<open>ni_dhcp6_device_retransmit_arm\<close> clears the delay and records
  \<open>start = now\<close>. With \<open>params.nretries = 0\<close> it does nothing else. With retransmissions
  enabled (\<open>params.nretries \<noteq> 0\<close>)
  \<^item> in state \<open>SELECTING\<close> with \<open>retrans.count = 1\<close> it sets the jitter window to the rebased
    \<open>[0, +jitter]\<close>, stores the \<open>RT\<close> and the deadline that \<open>ni_timeout_arm_msec\<close> computes
    from \<open>IRT\<close> and that window, and arms the FSM timer to exactly that \<open>RT\<close>;
  \<^item> in every other case it sets the window to the rebased \<open>[-jitter, +jitter]\<close>, stores
    \<open>RT\<close> and deadline likewise, and arms the FSM timer to \<open>retrans.duration\<close> only when
    the duration is not 0 (the timer stays as it was otherwise).
  Where \<open>ni_dhcp6_jitter_rebase\<close> and \<open>ni_timeout_arm_msec\<close> do what the spec says of
  them, the first window is \<open>[0, IRT * jitter / 1000]\<close>, the other one is symmetric around
  0, the deadline is \<open>now + RT\<close>, and the first \<open>RT\<close> of a Solicit, for a window of at least
  one millisecond, is strictly greater than \<open>IRT\<close> and at most
  \<open>IRT + IRT * jitter / 1000\<close>: \<open>RAND\<close> lies in \<open>(0, +0.1]\<close> for a jitter of at most 100.
\<close>

theorem retransmit_arm_windows:
  "(let r = dev_retrans dev;
        irt = tp_timeout (retrans_params r);
        jb = retrans_jitter r;
        first = (dev_fsm_state dev = NI_DHCP6_STATE_SELECTING \<and> retrans_count r = 1);
        window = env_jitter_rebase e irt (if first then 0 else 0 - jb) (0 + jb);
        armed = env_arm_msec e ((retrans_params r)\<lparr>tp_jitter := window\<rparr>);
        rt = fst armed;
        dev' = ni_dhcp6_device_retransmit_arm e dev;
        r' = dev_retrans dev'
    in retrans_delay r' = 0
     \<and> retrans_start r' = env_now e
     \<and> (tp_nretries (retrans_params r) = 0 \<longrightarrow>
           dev' = dev\<lparr>dev_retrans := r\<lparr>retrans_delay := 0, retrans_start := env_now e\<rparr>\<rparr>)
     \<and> (tp_nretries (retrans_params r) \<noteq> 0 \<longrightarrow>
           tp_jitter (retrans_params r') = window
         \<and> tp_timeout (retrans_params r') = rt
         \<and> retrans_deadline r' = snd armed
         \<and> dev_fsm_timer dev' =
              (if first then Some rt
               else if retrans_duration r \<noteq> 0 then Some (retrans_duration r)
               else dev_fsm_timer dev)
         \<and> (jitter_rebase_per_mille e \<longrightarrow>
               window = \<lparr>range_min = (if first then 0 else - c_div (int irt * jb) 1000),
                         range_max = c_div (int irt * jb) 1000\<rparr>)
         \<and> (jitter_rebase_per_mille e \<and> arm_msec_in_window e \<longrightarrow>
               retrans_deadline r' = timeval_add_msec (env_now e) rt
             \<and> (first \<and> 0 \<le> jb \<and> 1000 \<le> int irt * jb \<longrightarrow>
                  int irt < int rt
                \<and> int rt \<le> int irt + (int irt * jb) div 1000
                \<and> (jb \<le> 100 \<longrightarrow> 10 * (int rt - int irt) \<le> int irt)))))"
proof -
  define r where "r = dev_retrans dev"
  define irt where "irt = tp_timeout (retrans_params r)"
  define jb where "jb = retrans_jitter r"
  define first where "first = (dev_fsm_state dev = NI_DHCP6_STATE_SELECTING \<and> retrans_count r = 1)"
  define window where "window = env_jitter_rebase e irt (if first then 0 else 0 - jb) (0 + jb)"
  define tp where "tp = (retrans_params r)\<lparr>tp_jitter := window\<rparr>"
  define rt where "rt = fst (env_arm_msec e tp)"
  define dev' where "dev' = ni_dhcp6_device_retransmit_arm e dev"
  have ds: "retrans_delay (dev_retrans dev') = 0 \<and> retrans_start (dev_retrans dev') = env_now e"
    by (simp add: dev'_def ni_dhcp6_device_retransmit_arm_def ni_dhcp6_fsm_set_timeout_msec_def
        Let_def split: prod.splits)
  have off: "dev' = dev\<lparr>dev_retrans := r\<lparr>retrans_delay := 0, retrans_start := env_now e\<rparr>\<rparr>"
    if "tp_nretries (retrans_params r) = 0"
    using that by (simp add: dev'_def ni_dhcp6_device_retransmit_arm_def r_def Let_def)
  have code: "dev' = (let dev1 = dev\<lparr>dev_retrans := r\<lparr>retrans_delay := 0, retrans_start := env_now e,
                  retrans_deadline := snd (env_arm_msec e tp),
                  retrans_params := tp\<lparr>tp_timeout := rt\<rparr>\<rparr>\<rparr>
            in if first then dev1\<lparr>dev_fsm_timer := Some rt\<rparr>
               else if retrans_duration r \<noteq> 0 then dev1\<lparr>dev_fsm_timer := Some (retrans_duration r)\<rparr>
               else dev1)"
    if "tp_nretries (retrans_params r) \<noteq> 0"
    using that
    by (auto simp: dev'_def ni_dhcp6_device_retransmit_arm_def Let_def r_def first_def window_def
        irt_def jb_def rt_def tp_def ni_dhcp6_fsm_set_timeout_msec_def split: prod.splits)
  have a: "tp_jitter (retrans_params (dev_retrans dev')) = window
         \<and> tp_timeout (retrans_params (dev_retrans dev')) = rt
         \<and> retrans_deadline (dev_retrans dev') = snd (env_arm_msec e tp)
         \<and> dev_fsm_timer dev' =
                (if first then Some rt
                 else if retrans_duration r \<noteq> 0 then Some (retrans_duration r)
                 else dev_fsm_timer dev)"
    if "tp_nretries (retrans_params r) \<noteq> 0"
    by (simp add: code [OF that] Let_def tp_def)
  have w: "window = \<lparr>range_min = (if first then 0 else - c_div (int irt * jb) 1000),
                       range_max = c_div (int irt * jb) 1000\<rparr>"
    if "jitter_rebase_per_mille e"
    using that unfolding jitter_rebase_per_mille_def window_def
    by (simp add: c_div_neg_left c_div_def)
  have c: "retrans_deadline (dev_retrans dev') = timeval_add_msec (env_now e) rt
         \<and> (first \<and> 0 \<le> jb \<and> 1000 \<le> int irt * jb \<longrightarrow>
               int irt < int rt \<and> int rt \<le> int irt + (int irt * jb) div 1000
             \<and> (jb \<le> 100 \<longrightarrow> 10 * (int rt - int irt) \<le> int irt))"
    if n: "tp_nretries (retrans_params r) \<noteq> 0"
      and j: "jitter_rebase_per_mille e" and m: "arm_msec_in_window e"
  proof -
    have x: "(0 \<le> int (tp_timeout tp) + range_min (tp_jitter tp) \<and>
            range_min (tp_jitter tp) < range_max (tp_jitter tp) \<longrightarrow>
              int (tp_timeout tp) + range_min (tp_jitter tp) < int (fst (env_arm_msec e tp)) \<and>
              int (fst (env_arm_msec e tp)) \<le> int (tp_timeout tp) + range_max (tp_jitter tp)) \<and>
           snd (env_arm_msec e tp) = timeval_add_msec (env_now e) (fst (env_arm_msec e tp))"
      using m unfolding arm_msec_in_window_def by blast
    have y: "tp_timeout tp = irt" "tp_jitter tp = window"
      by (simp_all add: tp_def irt_def)
    have d: "retrans_deadline (dev_retrans dev') = timeval_add_msec (env_now e) rt"
      using x a [OF n] by (simp add: rt_def)
    have b: "int irt < int rt \<and> int rt \<le> int irt + (int irt * jb) div 1000
             \<and> (jb \<le> 100 \<longrightarrow> 10 * (int rt - int irt) \<le> int irt)"
      if f: first and j0: "0 \<le> jb" and big: "1000 \<le> int irt * jb"
    proof -
      have mx: "c_div (int irt * jb) 1000 = (int irt * jb) div 1000"
        using j0 by (simp add: c_div_per_mille)
      have pos: "0 < (int irt * jb) div 1000"
        using big by (simp add: pos_imp_zdiv_pos_iff)
      have win: "range_min window = 0" "range_max window = (int irt * jb) div 1000"
        using w [OF j] f by (simp_all add: mx)
      have rg: "int irt < int rt \<and> int rt \<le> int irt + (int irt * jb) div 1000"
        using x pos by (simp add: y win rt_def)
      have "10 * (int rt - int irt) \<le> int irt" if "jb \<le> 100"
      proof -
        have "10 * (int rt - int irt) \<le> 10 * ((int irt * jb) div 1000)" using rg by simp
        also have "\<dots> \<le> int irt" using that by (simp add: tenth_of_timeout)
        finally show ?thesis .
      qed
      then show ?thesis using rg by blast
    qed
    show ?thesis using d b by blast
  qed
  show ?thesis
    unfolding Let_def r_def [symmetric] irt_def [symmetric] jb_def [symmetric]
      first_def [symmetric] window_def [symmetric] tp_def [symmetric] rt_def [symmetric]
      dev'_def [symmetric]
    using ds off a w c by blast
qed


lemma example_env_arm_msec_in_window: "arm_msec_in_window example_env"
  by (simp add: arm_msec_in_window_def example_env_def)

lemma example_env_jitter_rebase_per_mille: "jitter_rebase_per_mille example_env"
  by (simp add: jitter_rebase_per_mille_def example_env_def)

theorem retransmit_arm_windows_witness:
  "jitter_rebase_per_mille example_env
   \<and> arm_msec_in_window example_env
   \<and> tp_nretries (retrans_params (dev_retrans example_solicit)) \<noteq> 0
   \<and> dev_fsm_state example_solicit = NI_DHCP6_STATE_SELECTING
   \<and> retrans_count (dev_retrans example_solicit) = 1
   \<and> tp_timeout (retrans_params (dev_retrans example_solicit)) = 1000
   \<and> retrans_jitter (dev_retrans example_solicit) = 100
   \<and> tp_jitter (retrans_params (dev_retrans (ni_dhcp6_device_retransmit_arm example_env example_solicit)))
        = \<lparr>range_min = 0, range_max = 100\<rparr>
   \<and> tp_timeout (retrans_params (dev_retrans (ni_dhcp6_device_retransmit_arm example_env example_solicit)))
        = 1100
   \<and> retrans_deadline (dev_retrans (ni_dhcp6_device_retransmit_arm example_env example_solicit))
        = \<lparr>tv_sec = 1001, tv_usec = 350000\<rparr>
   \<and> dev_fsm_timer (ni_dhcp6_device_retransmit_arm example_env example_solicit) = Some 1100
   \<and> tp_nretries (retrans_params (dev_retrans example_renew)) \<noteq> 0
   \<and> tp_jitter (retrans_params (dev_retrans (ni_dhcp6_device_retransmit_arm example_env example_renew)))
        = \<lparr>range_min = - 100, range_max = 100\<rparr>
   \<and> dev_fsm_timer (ni_dhcp6_device_retransmit_arm example_env example_renew) = Some 30000
   \<and> tp_nretries (retrans_params (dev_retrans example_no_retries)) = 0
   \<and> ni_dhcp6_device_retransmit_arm example_env example_no_retries
        = example_no_retries\<lparr>dev_retrans := (dev_retrans example_no_retries)
            \<lparr>retrans_delay := 0, retrans_start := \<lparr>tv_sec = 1000, tv_usec = 250000\<rparr>\<rparr>\<rparr>"
proof -
  have s: "dev_fsm_state example_solicit = NI_DHCP6_STATE_SELECTING
         \<and> retrans_count (dev_retrans example_solicit) = 1
         \<and> retrans_jitter (dev_retrans example_solicit) = 100
         \<and> retrans_params (dev_retrans example_solicit)
             = \<lparr>tp_nretries = - 1, tp_timeout = 1000, tp_jitter = \<lparr>range_min = 0, range_max = 0\<rparr>\<rparr>"
    by (simp add: example_solicit_def)
  have r: "dev_fsm_state example_renew = NI_DHCP6_STATE_RENEWING
         \<and> retrans_jitter (dev_retrans example_renew) = 100
         \<and> retrans_duration (dev_retrans example_renew) = 30000
         \<and> retrans_params (dev_retrans example_renew)
             = \<lparr>tp_nretries = - 1, tp_timeout = 1000, tp_jitter = \<lparr>range_min = 0, range_max = 0\<rparr>\<rparr>"
    by (simp add: example_renew_def example_solicit_def)
  have z: "tp_nretries (retrans_params (dev_retrans example_no_retries)) = 0"
    by (simp add: example_no_retries_def)
  have now: "env_now example_env = \<lparr>tv_sec = 1000, tv_usec = 250000\<rparr>"
    by (simp add: example_env_def)
  have j1: "env_jitter_rebase example_env 1000 0 100 = \<lparr>range_min = 0, range_max = 100\<rparr>"
    by (simp add: example_env_def c_div_def)
  have j2: "env_jitter_rebase example_env 1000 (- 100) 100 = \<lparr>range_min = - 100, range_max = 100\<rparr>"
    by (simp add: example_env_def c_div_def)
  have a1: "env_arm_msec example_env
              \<lparr>tp_nretries = - 1, tp_timeout = 1000, tp_jitter = \<lparr>range_min = 0, range_max = 100\<rparr>\<rparr>
            = (1100, \<lparr>tv_sec = 1001, tv_usec = 350000\<rparr>)"
    by (simp add: example_env_def timeval_add_msec_def)
  note w1 = retransmit_arm_windows [where e = example_env and dev = example_solicit,
      unfolded Let_def, THEN conjunct2, THEN conjunct2, THEN conjunct2]
  note w2 = retransmit_arm_windows [where e = example_env and dev = example_renew,
      unfolded Let_def, THEN conjunct2, THEN conjunct2, THEN conjunct2]
  note w3 = retransmit_arm_windows [where e = example_env and dev = example_no_retries,
      unfolded Let_def, THEN conjunct2, THEN conjunct2, THEN conjunct1]
  have 1: "tp_jitter (retrans_params (dev_retrans (ni_dhcp6_device_retransmit_arm example_env example_solicit)))
        = \<lparr>range_min = 0, range_max = 100\<rparr>
   \<and> tp_timeout (retrans_params (dev_retrans (ni_dhcp6_device_retransmit_arm example_env example_solicit)))
        = 1100
   \<and> retrans_deadline (dev_retrans (ni_dhcp6_device_retransmit_arm example_env example_solicit))
        = \<lparr>tv_sec = 1001, tv_usec = 350000\<rparr>
   \<and> dev_fsm_timer (ni_dhcp6_device_retransmit_arm example_env example_solicit) = Some 1100"
    using w1 by (simp add: s j1 a1)
  have 2: "tp_jitter (retrans_params (dev_retrans (ni_dhcp6_device_retransmit_arm example_env example_renew)))
        = \<lparr>range_min = - 100, range_max = 100\<rparr>
   \<and> dev_fsm_timer (ni_dhcp6_device_retransmit_arm example_env example_renew) = Some 30000"
    using w2 by (simp add: r j2)
  have 3: "ni_dhcp6_device_retransmit_arm example_env example_no_retries
        = example_no_retries\<lparr>dev_retrans := (dev_retrans example_no_retries)
            \<lparr>retrans_delay := 0, retrans_start := \<lparr>tv_sec = 1000, tv_usec = 250000\<rparr>\<rparr>\<rparr>"
    using w3 z by (simp add: now)
  show ?thesis
    using s r z 1 2 3 example_env_arm_msec_in_window example_env_jitter_rebase_per_mille
    by simp
qed

section \<open>Exclusivity of the retransmission state\<close>





















section \<open>IAID derivation\<close>

lemma le32_bytes_of_u32: "le32 (bytes_of_u32 w) = w"
  unfolding bytes_of_u32_def
  apply simp
  apply (rule bit_word_eqI)
  apply (auto simp: bit_simps dest: bit_imp_le_length)
  subgoal for n by (cases "24 \<le> n") simp_all
  done

lemma memcpy_u32_nothing: "memcpy_u32 w src 0 = w"
  by (simp add: memcpy_u32_def le32_bytes_of_u32)

text \<open>
  Claim C2 wants the IAID to depend on the hardware address, the interface name, the
  VLAN tag and the interface index only, the bytes beyond the copied part of the name
  being zero, and the name \<open>eth0\<close> with VLAN tag 7 and index 3 to give the four name bytes
  XOR 7 XOR 3. \<open>ni_dhcp6_device_iaid\<close> copies \<open>len % 4\<close> bytes of the name into the local
  \<open>tmp\<close>, which it never initialises, and XORs all of \<open>tmp\<close> into the IAID. For \<open>eth0\<close> no
  byte is copied: the result is whatever \<open>tmp\<close> held, XOR 7 XOR 3. For \<open>wlan0\<close> one byte is
  copied and the three upper bytes of the result come from what \<open>tmp\<close> held.
\<close>

theorem iaid_reads_uninitialised_tmp:
  "ni_netdev_by_index (env_nc example_env) (dev_ifindex example_device) = Some example_netdev
   \<and> nd_hwaddr example_netdev = []
   \<and> nd_vlan_tag example_netdev = Some 7
   \<and> dev_ifname example_device = ''eth0''
   \<and> dev_ifindex example_device = 3
   \<and> ni_dhcp6_device_iaid example_env tmp0 example_device iaid0 = (0, tmp0 XOR 7 XOR 3)
   \<and> ni_dhcp6_device_iaid example_env 0 example_device 0 = (0, 4)
   \<and> ni_dhcp6_device_iaid example_env 0x7FFF example_device 0 = (0, 0x7FFB)
   \<and> le32 (map byte_of_char ''eth0'') XOR 7 XOR 3 = (0x30687461 :: u32)
   \<and> ni_dhcp6_device_iaid example_env 0xAABBCCDD (example_device\<lparr>dev_ifname := ''wlan0''\<rparr>) 0
        = (0, 0xAABBCC73)"
proof -
  have l: "ni_netdev_by_index (env_nc example_env) (dev_ifindex example_device) = Some example_netdev"
    by (simp add: ni_netdev_by_index_def example_env_def example_netdev_def example_device_def)
  have l3: "ni_netdev_by_index (env_nc example_env) 3 = Some example_netdev"
    by (simp add: ni_netdev_by_index_def example_env_def example_netdev_def)
  have n: "nd_hwaddr example_netdev = []" "nd_vlan_tag example_netdev = Some 7"
    by (simp_all add: example_netdev_def)
  have i: "dev_ifname example_device = ''eth0''" "dev_ifindex example_device = 3"
    by (simp_all add: example_device_def)
  have g: "ni_dhcp6_device_iaid example_env t example_device i0 = (0, t XOR 7 XOR 3)" for t i0
    by (simp add: ni_dhcp6_device_iaid_def l3 n i memcpy_u32_nothing Let_def xor.assoc)
  have b: "bytes_of_u32 0xAABBCCDD = [0xDD, 0xCC, 0xBB, 0xAA]"
    by (simp add: bytes_of_u32_def)
  have w: "ni_dhcp6_device_iaid example_env 0xAABBCCDD (example_device\<lparr>dev_ifname := ''wlan0''\<rparr>) 0
        = (0, 0xAABBCC73)"
    by (simp add: ni_dhcp6_device_iaid_def l3 n i memcpy_u32_def b byte_of_char_def Let_def)
  have v: "le32 (map byte_of_char ''eth0'') XOR 7 XOR 3 = (0x30687461 :: u32)"
    by (simp add: byte_of_char_def)
  have c: "ni_dhcp6_device_iaid example_env 0 example_device 0 = (0, 4)"
     "ni_dhcp6_device_iaid example_env 0x7FFF example_device 0 = (0, 0x7FFB)"
    by (simp_all add: g)
  show ?thesis using l n i g c v w by simp
qed

section \<open>Readiness scan and acquire\<close>

lemma set_lladdr_unusable:
  "\<not> addr_usable a \<Longrightarrow>
   ni_dhcp6_device_set_lladdr dev a = (if addr_duplicate a then - 1 else 1, dev)"
  by (auto simp: ni_dhcp6_device_set_lladdr_def addr_usable_def)

lemma set_lladdr_usable:
  "addr_usable a \<Longrightarrow>
   ni_dhcp6_device_set_lladdr dev a = (0, dev\<lparr>dev_link_addr := addr_local_addr a\<rparr>)"
  by (auto simp: ni_dhcp6_device_set_lladdr_def addr_usable_def)

lemma find_lladdr_loop_skip:
  "\<not> is_lladdr a \<Longrightarrow> find_lladdr_loop dev (a # addrs) rv = find_lladdr_loop dev addrs rv"
  by (auto simp: is_lladdr_def)

lemma find_lladdr_loop_unusable_step:
  "is_lladdr a \<Longrightarrow> \<not> addr_usable a \<Longrightarrow>
   find_lladdr_loop dev (a # addrs) rv
     = find_lladdr_loop dev addrs (if addr_duplicate a then - 1 else 1)"
  by (simp add: is_lladdr_def set_lladdr_unusable)

lemma find_lladdr_loop_usable_step:
  "is_lladdr a \<Longrightarrow> addr_usable a \<Longrightarrow>
   find_lladdr_loop dev (a # addrs) rv = (0, dev\<lparr>dev_link_addr := addr_local_addr a\<rparr>)"
  by (simp add: is_lladdr_def set_lladdr_usable)

lemma find_lladdr_loop_unusable:
  "\<forall>a \<in> set (filter is_lladdr addrs). \<not> addr_usable a \<Longrightarrow>
   find_lladdr_loop dev addrs rv =
     (if filter is_lladdr addrs = [] then rv
      else if addr_duplicate (last (filter is_lladdr addrs)) then - 1 else 1, dev)"
proof (induction addrs arbitrary: rv)
  case Nil
  then show ?case by simp
next
  case (Cons a addrs)
  have r: "\<forall>a \<in> set (filter is_lladdr addrs). \<not> addr_usable a"
    using Cons.prems by simp
  show ?case
  proof (cases "is_lladdr a")
    case False
    then show ?thesis
      using Cons.IH [OF r] by (simp add: find_lladdr_loop_skip del: find_lladdr_loop.simps)
  next
    case True
    then have u: "\<not> addr_usable a" using Cons.prems by simp
    show ?thesis
      using True Cons.IH [OF r]
      by (simp add: find_lladdr_loop_unusable_step [OF True u] del: find_lladdr_loop.simps)
  qed
qed

lemma find_lladdr_loop_usable:
  "find addr_usable (filter is_lladdr addrs) = Some a \<Longrightarrow>
   find_lladdr_loop dev addrs rv = (0, dev\<lparr>dev_link_addr := addr_local_addr a\<rparr>)"
proof (induction addrs arbitrary: rv)
  case Nil
  then show ?case by simp
next
  case (Cons b addrs)
  show ?case
  proof (cases "is_lladdr b")
    case False
    then show ?thesis
      using Cons by (simp add: find_lladdr_loop_skip del: find_lladdr_loop.simps)
  next
    case True
    show ?thesis
    proof (cases "addr_usable b")
      case u: True
      then have "a = b" using Cons.prems True by simp
      then show ?thesis
        by (simp add: find_lladdr_loop_usable_step [OF True u] del: find_lladdr_loop.simps)
    next
      case u: False
      then have "find addr_usable (filter is_lladdr addrs) = Some a"
        using Cons.prems True by simp
      then show ?thesis
        using Cons.IH
        by (simp add: find_lladdr_loop_unusable_step [OF True u] del: find_lladdr_loop.simps)
    qed
  qed
qed

lemma find_lladdr_not_yet:
  assumes "ni_netdev_by_index (env_nc e) (dev_ifindex dev) = Some ifp" and "nd_link_up ifp"
      and "\<forall>a \<in> set (lladdrs ifp). \<not> addr_usable a"
  shows "ni_dhcp6_device_find_lladdr e dev =
     (if lladdrs ifp = [] then 1 else if addr_duplicate (last (lladdrs ifp)) then - 1 else 1, dev)"
  using assms
  by (simp add: ni_dhcp6_device_find_lladdr_def lladdrs_def find_lladdr_loop_unusable)

lemma find_lladdr_ready:
  assumes "ni_netdev_by_index (env_nc e) (dev_ifindex dev) = Some ifp" and "nd_link_up ifp"
      and "find addr_usable (lladdrs ifp) = Some a"
  shows "ni_dhcp6_device_find_lladdr e dev = (0, dev\<lparr>dev_link_addr := addr_local_addr a\<rparr>)"
  using assms
  by (simp add: ni_dhcp6_device_find_lladdr_def lladdrs_def find_lladdr_loop_usable)


lemma after_duid_ifindex: "dev_ifindex (after_duid e dev info) = dev_ifindex dev"
  by (simp add: after_duid_def split: prod.splits)

lemma after_duid_fields:
  "dev_fsm_state (after_duid e dev info) = dev_fsm_state dev
   \<and> dev_fsm_timer (after_duid e dev info) = dev_fsm_timer dev
   \<and> dev_fsm_fail_on_timeout (after_duid e dev info) = dev_fsm_fail_on_timeout dev
   \<and> dev_config (after_duid e dev info) = dev_config dev"
  by (simp add: after_duid_def split: prod.splits)

lemma acquire_after_duid:
  assumes "fst (ni_dhcp6_config_init_duid e dev [] (req_clientid info))"
  shows "ni_dhcp6_acquire e dev info =
     (let scan = ni_dhcp6_device_find_lladdr e (after_duid e dev info);
          rv = fst scan; dev2 = snd scan;
          config = nascent_config e dev info
      in if rv < 0 then (rv, ni_dhcp6_device_config_free (Some config) dev2)
         else if rv > 0
         then (rv, (ni_dhcp6_device_set_config dev2 (Some config))
                      \<lparr>dev_fsm_state := NI_DHCP6_STATE_WAIT_READY,
                       dev_fsm_timer := Some NI_DHCP6_WAIT_READY_MSEC,
                       dev_fsm_fail_on_timeout := True\<rparr>)
         else ni_dhcp6_device_start e (ni_dhcp6_device_set_config dev2 (Some config)))"
proof -
  obtain ok duid saved where p: "ni_dhcp6_config_init_duid e dev [] (req_clientid info) = (ok, duid, saved)"
    by (cases "ni_dhcp6_config_init_duid e dev [] (req_clientid info)") auto
  have ok: ok using assms by (simp add: p)
  obtain rv dev2 where q: "ni_dhcp6_device_find_lladdr e (after_duid e dev info) = (rv, dev2)"
    by (cases "ni_dhcp6_device_find_lladdr e (after_duid e dev info)")
  have a: "after_duid e dev info
            = (if saved then dev\<lparr>dev_effects := dev_effects dev @ [DuidSave duid]\<rparr> else dev)"
    by (simp add: after_duid_def p)
  have z: "cfg_client_duid config_zero = []" by (simp add: config_zero_def)
  show ?thesis
    using ok q [unfolded a]
    by (simp add: ni_dhcp6_acquire_def nascent_config_def p a z Let_def
        ni_dhcp6_fsm_set_timeout_msec_def)
qed


lemma generate_duid_others_fsm_start:
  "generate_duid_others (e\<lparr>env_fsm_start := f\<rparr>) ifindex ifps = generate_duid_others e ifindex ifps"
  by (induction ifps) (simp_all cong: option.case_cong)

lemma default_duid_fsm_start:
  "ni_dhcp6_config_default_duid (e\<lparr>env_fsm_start := f\<rparr>) d = ni_dhcp6_config_default_duid e d"
  by (simp add: ni_dhcp6_config_default_duid_def)

lemma generate_duid_fsm_start:
  "ni_dhcp6_generate_duid (e\<lparr>env_fsm_start := f\<rparr>) dev d = ni_dhcp6_generate_duid e dev d"
  by (simp add: ni_dhcp6_generate_duid_def generate_duid_others_fsm_start
      cong: option.case_cong if_cong)

lemma init_duid_fsm_start:
  "ni_dhcp6_config_init_duid (e\<lparr>env_fsm_start := f\<rparr>) dev duid0 preferred
     = ni_dhcp6_config_init_duid e dev duid0 preferred"
  by (simp add: ni_dhcp6_config_init_duid_def default_duid_fsm_start generate_duid_fsm_start
      Let_def cong: option.case_cong prod.case_cong if_cong)

lemma after_duid_fsm_start:
  "after_duid (e\<lparr>env_fsm_start := f\<rparr>) dev info = after_duid e dev info"
  by (simp add: after_duid_def init_duid_fsm_start)

lemma vendor_class_fsm_start:
  "ni_dhcp6_config_vendor_class (e\<lparr>env_fsm_start := f\<rparr>) c = ni_dhcp6_config_vendor_class e c"
  by (simp add: ni_dhcp6_config_vendor_class_def)

lemma vendor_opts_fsm_start:
  "ni_dhcp6_config_vendor_opts (e\<lparr>env_fsm_start := f\<rparr>) c = ni_dhcp6_config_vendor_opts e c"
  by (simp add: ni_dhcp6_config_vendor_opts_def)

lemma acquire_config_fsm_start:
  "acquire_config (e\<lparr>env_fsm_start := f\<rparr>) dev info c = acquire_config e dev info c"
  by (simp add: acquire_config_def vendor_class_fsm_start vendor_opts_fsm_start Let_def
      cong: option.case_cong if_cong)

lemma nascent_config_fsm_start:
  "nascent_config (e\<lparr>env_fsm_start := f\<rparr>) dev info = nascent_config e dev info"
  by (simp add: nascent_config_def init_duid_fsm_start after_duid_fsm_start
      acquire_config_fsm_start)

lemma example_is_lladdr:
  "is_lladdr example_lladdr" "is_lladdr example_duplicate" "is_lladdr example_tentative"
  by (simp_all add: is_lladdr_def ni_address_is_linklocal_def example_lladdr_def
      example_duplicate_def example_tentative_def)

lemma example_usable:
  "addr_usable example_lladdr" "\<not> addr_usable example_duplicate" "\<not> addr_usable example_tentative"
  "addr_duplicate example_duplicate" "\<not> addr_duplicate example_tentative"
  "addr_tentative example_tentative"
  by (simp_all add: addr_usable_def example_lladdr_def example_duplicate_def example_tentative_def)

lemma example_env_addrs_lookup:
  "ni_netdev_by_index (env_nc (example_env_addrs addrs)) (dev_ifindex example_device)
     = Some (example_netdev\<lparr>nd_addrs := addrs\<rparr>)"
  by (simp add: example_env_addrs_def ni_netdev_by_index_def example_netdev_def example_device_def)

lemma example_env_addrs_duid:
  "ni_dhcp6_config_init_duid (example_env_addrs addrs) example_device [] (req_clientid example_request)
     = (True, [0, 4, 1, 2, 3, 4], False)"
  by (simp add: ni_dhcp6_config_init_duid_def ni_dhcp6_config_default_duid_def
      example_env_addrs_def example_env_def example_request_def Let_def)

lemma example_after_duid:
  "after_duid (example_env_addrs addrs) example_device example_request = example_device"
  by (simp add: after_duid_def example_env_addrs_duid)

lemma example_netdev_up: "nd_link_up (example_netdev\<lparr>nd_addrs := addrs\<rparr>)"
  by (simp add: example_netdev_def)

lemma example_lladdrs:
  "lladdrs (example_netdev\<lparr>nd_addrs := [example_duplicate]\<rparr>) = [example_duplicate]"
  "lladdrs (example_netdev\<lparr>nd_addrs := [example_tentative]\<rparr>) = [example_tentative]"
  "lladdrs (example_netdev\<lparr>nd_addrs := [example_duplicate, example_tentative]\<rparr>)
     = [example_duplicate, example_tentative]"
  "lladdrs (example_netdev\<lparr>nd_addrs := [example_tentative, example_lladdr]\<rparr>)
     = [example_tentative, example_lladdr]"
  by (simp_all add: lladdrs_def example_is_lladdr)

lemma example_device_fields:
  "dev_fsm_state example_device = NI_DHCP6_STATE_INIT" "dev_fsm_timer example_device = None"
  "\<not> dev_fsm_fail_on_timeout example_device" "dev_config example_device = None"
  by (simp_all add: example_device_def)

text \<open>
  Claim C5, as stated, fails where the scan ends on a duplicate: on an interface whose
  link is up and whose only link-local address is flagged duplicate no usable address
  has been found, yet \<open>ni_dhcp6_acquire\<close> returns the error, installs no config, leaves
  the FSM state at \<open>INIT\<close> and arms no timer.
\<close>

theorem acquire_duplicate_counterexample:
  "nd_link_up (example_netdev\<lparr>nd_addrs := [example_duplicate]\<rparr>)
   \<and> lladdrs (example_netdev\<lparr>nd_addrs := [example_duplicate]\<rparr>) = [example_duplicate]
   \<and> \<not> addr_usable example_duplicate
   \<and> fst (ni_dhcp6_acquire (example_env_addrs [example_duplicate]) example_device example_request) = - 1
   \<and> dev_fsm_state (snd (ni_dhcp6_acquire (example_env_addrs [example_duplicate])
         example_device example_request)) = NI_DHCP6_STATE_INIT
   \<and> dev_fsm_timer (snd (ni_dhcp6_acquire (example_env_addrs [example_duplicate])
         example_device example_request)) = None
   \<and> \<not> dev_fsm_fail_on_timeout (snd (ni_dhcp6_acquire (example_env_addrs [example_duplicate])
         example_device example_request))
   \<and> dev_config (snd (ni_dhcp6_acquire (example_env_addrs [example_duplicate])
         example_device example_request)) = None"
proof -
  let ?e = "example_env_addrs [example_duplicate]"
  have d: "fst (ni_dhcp6_config_init_duid ?e example_device [] (req_clientid example_request))"
    by (simp add: example_env_addrs_duid)
  have "ni_dhcp6_device_find_lladdr ?e example_device = (- 1, example_device)"
    using find_lladdr_not_yet [OF example_env_addrs_lookup example_netdev_up, of "[example_duplicate]"]
    by (simp add: example_lladdrs example_usable)
  then have "ni_dhcp6_acquire ?e example_device example_request
      = (- 1, ni_dhcp6_device_config_free (Some (nascent_config ?e example_device example_request))
                example_device)"
    by (simp add: acquire_after_duid [OF d] example_after_duid Let_def)
  then show ?thesis
    by (simp add: ni_dhcp6_device_config_free_def example_lladdrs example_usable
        example_netdev_up example_device_fields)
qed

text \<open>
  Claim C5, amended. Where the client DUID could be derived and the interface is found
  with its link up:
  \<^item> when every link-local address of the interface is tentative and none is flagged
    duplicate (or the interface has no link-local address), \<open>ni_dhcp6_acquire\<close> returns 1
    with the newly built config installed, the FSM state \<open>WAIT_READY\<close>, the FSM timer
    armed to 2000 ms and \<open>fail_on_timeout\<close> set; the FSM is not started: the result is the
    same whatever \<open>ni_dhcp6_fsm_start\<close> does;
  \<^item> when a usable link-local address is found, it records the first such address as the
    source, installs the config, clears the failed flag, prepares the buffer and returns
    what \<open>ni_dhcp6_fsm_start\<close> returns.
\<close>

theorem acquire_waits_or_starts:
  assumes duid: "fst (ni_dhcp6_config_init_duid e dev [] (req_clientid info))"
      and ifp: "ni_netdev_by_index (env_nc e) (dev_ifindex dev) = Some ifp"
      and up: "nd_link_up ifp"
  shows "((\<forall>a \<in> set (lladdrs ifp). addr_tentative a \<and> \<not> addr_duplicate a) \<longrightarrow>
            ni_dhcp6_acquire e dev info =
              (1, (ni_dhcp6_device_set_config (after_duid e dev info) (Some (nascent_config e dev info)))
                     \<lparr>dev_fsm_state := NI_DHCP6_STATE_WAIT_READY,
                      dev_fsm_timer := Some 2000,
                      dev_fsm_fail_on_timeout := True\<rparr>)
          \<and> dev_config (snd (ni_dhcp6_acquire e dev info)) = Some (nascent_config e dev info)
          \<and> (\<forall>f. ni_dhcp6_acquire (e\<lparr>env_fsm_start := f\<rparr>) dev info = ni_dhcp6_acquire e dev info))
       \<and> (\<forall>a. find addr_usable (lladdrs ifp) = Some a \<longrightarrow>
            ni_dhcp6_acquire e dev info =
              env_fsm_start e (ni_dhcp6_device_alloc_buffer e
                ((ni_dhcp6_device_set_config ((after_duid e dev info)\<lparr>dev_link_addr := addr_local_addr a\<rparr>)
                    (Some (nascent_config e dev info)))\<lparr>dev_failed := False\<rparr>)))"
proof -
  let ?dev1 = "after_duid e dev info" and ?config = "nascent_config e dev info"
  have ifp1: "ni_netdev_by_index (env_nc e) (dev_ifindex ?dev1) = Some ifp"
    using ifp by (simp add: after_duid_ifindex)
  have wait: "ni_dhcp6_acquire e' dev info =
              (1, (ni_dhcp6_device_set_config ?dev1 (Some ?config))
                     \<lparr>dev_fsm_state := NI_DHCP6_STATE_WAIT_READY,
                      dev_fsm_timer := Some 2000,
                      dev_fsm_fail_on_timeout := True\<rparr>)"
    if t: "\<forall>a \<in> set (lladdrs ifp). addr_tentative a \<and> \<not> addr_duplicate a"
      and e': "e' = e \<or> (\<exists>f. e' = e\<lparr>env_fsm_start := f\<rparr>)"
    for e'
  proof -
    have n: "\<forall>a \<in> set (lladdrs ifp). \<not> addr_usable a"
      using t by (simp add: addr_usable_def)
    have l: "lladdrs ifp = [] \<or> \<not> addr_duplicate (last (lladdrs ifp))"
      using t by (cases "lladdrs ifp = []") simp_all
    have same: "after_duid e' dev info = ?dev1" "nascent_config e' dev info = ?config"
        "ni_dhcp6_config_init_duid e' dev [] (req_clientid info)
           = ni_dhcp6_config_init_duid e dev [] (req_clientid info)"
        "env_nc e' = env_nc e"
      using e' by (auto simp: after_duid_fsm_start nascent_config_fsm_start init_duid_fsm_start)
    have d: "fst (ni_dhcp6_config_init_duid e' dev [] (req_clientid info))"
      using duid by (simp add: same)
    have i: "ni_netdev_by_index (env_nc e') (dev_ifindex ?dev1) = Some ifp"
      using ifp1 by (simp add: same)
    have s: "ni_dhcp6_device_find_lladdr e' ?dev1 = (1, ?dev1)"
      using find_lladdr_not_yet [OF i up n] l by auto
    show ?thesis
      by (simp add: acquire_after_duid [OF d] same s Let_def NI_DHCP6_WAIT_READY_MSEC_def)
  qed
  have start: "ni_dhcp6_acquire e dev info =
              env_fsm_start e (ni_dhcp6_device_alloc_buffer e
                ((ni_dhcp6_device_set_config (?dev1\<lparr>dev_link_addr := addr_local_addr a\<rparr>)
                    (Some ?config))\<lparr>dev_failed := False\<rparr>))"
    if "find addr_usable (lladdrs ifp) = Some a" for a
  proof -
    have s: "ni_dhcp6_device_find_lladdr e ?dev1 = (0, ?dev1\<lparr>dev_link_addr := addr_local_addr a\<rparr>)"
      using find_lladdr_ready [OF ifp1 up that] .
    have c: "dev_config (ni_dhcp6_device_set_config d (Some ?config)) \<noteq> None" for d
      by (simp add: ni_dhcp6_device_set_config_def Let_def)
    show ?thesis
      by (simp add: acquire_after_duid [OF duid] s Let_def ni_dhcp6_device_start_def c)
  qed
  have cfg: "dev_config ((ni_dhcp6_device_set_config ?dev1 (Some ?config))
                     \<lparr>dev_fsm_state := NI_DHCP6_STATE_WAIT_READY,
                      dev_fsm_timer := Some 2000,
                      dev_fsm_fail_on_timeout := True\<rparr>) = Some ?config"
    by (simp add: ni_dhcp6_device_set_config_def Let_def)
  show ?thesis
  proof (intro conjI impI allI)
    assume h: "\<forall>a \<in> set (lladdrs ifp). addr_tentative a \<and> \<not> addr_duplicate a"
    then show w: "ni_dhcp6_acquire e dev info =
              (1, (ni_dhcp6_device_set_config ?dev1 (Some ?config))
                     \<lparr>dev_fsm_state := NI_DHCP6_STATE_WAIT_READY,
                      dev_fsm_timer := Some 2000,
                      dev_fsm_fail_on_timeout := True\<rparr>)"
      using wait [of e] by blast
    show "dev_config (snd (ni_dhcp6_acquire e dev info)) = Some ?config"
      by (simp add: w cfg)
    fix f
    show "ni_dhcp6_acquire (e\<lparr>env_fsm_start := f\<rparr>) dev info = ni_dhcp6_acquire e dev info"
      using h wait [of "e\<lparr>env_fsm_start := f\<rparr>"] w by auto
  next
    fix a assume "find addr_usable (lladdrs ifp) = Some a"
    then show "ni_dhcp6_acquire e dev info =
              env_fsm_start e (ni_dhcp6_device_alloc_buffer e
                ((ni_dhcp6_device_set_config (?dev1\<lparr>dev_link_addr := addr_local_addr a\<rparr>)
                    (Some ?config))\<lparr>dev_failed := False\<rparr>))"
      by (rule start)
  qed
qed

theorem acquire_waits_or_starts_witness:
  "fst (ni_dhcp6_config_init_duid (example_env_addrs [example_tentative]) example_device []
          (req_clientid example_request))
   \<and> ni_netdev_by_index (env_nc (example_env_addrs [example_tentative])) (dev_ifindex example_device)
       = Some (example_netdev\<lparr>nd_addrs := [example_tentative]\<rparr>)
   \<and> nd_link_up (example_netdev\<lparr>nd_addrs := [example_tentative]\<rparr>)
   \<and> lladdrs (example_netdev\<lparr>nd_addrs := [example_tentative]\<rparr>) = [example_tentative]
   \<and> addr_tentative example_tentative \<and> \<not> addr_duplicate example_tentative
   \<and> fst (ni_dhcp6_acquire (example_env_addrs [example_tentative]) example_device example_request) = 1
   \<and> dev_fsm_state (snd (ni_dhcp6_acquire (example_env_addrs [example_tentative])
         example_device example_request)) = NI_DHCP6_STATE_WAIT_READY
   \<and> dev_fsm_timer (snd (ni_dhcp6_acquire (example_env_addrs [example_tentative])
         example_device example_request)) = Some 2000
   \<and> dev_fsm_fail_on_timeout (snd (ni_dhcp6_acquire (example_env_addrs [example_tentative])
         example_device example_request))
   \<and> find addr_usable (lladdrs (example_netdev\<lparr>nd_addrs := [example_tentative, example_lladdr]\<rparr>))
       = Some example_lladdr
   \<and> fst (ni_dhcp6_acquire (example_env_addrs [example_tentative, example_lladdr])
         example_device example_request) = 0
   \<and> dev_fsm_state (snd (ni_dhcp6_acquire (example_env_addrs [example_tentative, example_lladdr])
         example_device example_request)) = NI_DHCP6_STATE_SELECTING
   \<and> dev_link_addr (snd (ni_dhcp6_acquire (example_env_addrs [example_tentative, example_lladdr])
         example_device example_request)) = addr_local_addr example_lladdr"
proof -
  let ?e = "example_env_addrs [example_tentative]"
  let ?e2 = "example_env_addrs [example_tentative, example_lladdr]"
  have d: "fst (ni_dhcp6_config_init_duid (example_env_addrs addrs) example_device []
      (req_clientid example_request))" for addrs
    by (simp add: example_env_addrs_duid)
  have f: "find addr_usable (lladdrs (example_netdev\<lparr>nd_addrs := [example_tentative, example_lladdr]\<rparr>))
       = Some example_lladdr"
    by (simp add: example_lladdrs example_usable)
  have st: "env_fsm_start ?e2 = (\<lambda>dev. (0, dev\<lparr>dev_fsm_state := NI_DHCP6_STATE_SELECTING\<rparr>))"
    by (simp add: example_env_addrs_def example_env_def)
  have 1: "ni_dhcp6_acquire ?e example_device example_request =
              (1, (ni_dhcp6_device_set_config example_device
                     (Some (nascent_config ?e example_device example_request)))
                     \<lparr>dev_fsm_state := NI_DHCP6_STATE_WAIT_READY,
                      dev_fsm_timer := Some 2000,
                      dev_fsm_fail_on_timeout := True\<rparr>)"
    using acquire_waits_or_starts [OF d example_env_addrs_lookup example_netdev_up,
        of "[example_tentative]", THEN conjunct1]
    by (simp add: example_lladdrs example_usable example_after_duid)
  have 2: "ni_dhcp6_acquire ?e2 example_device example_request =
              env_fsm_start ?e2 (ni_dhcp6_device_alloc_buffer ?e2
                ((ni_dhcp6_device_set_config (example_device\<lparr>dev_link_addr := addr_local_addr example_lladdr\<rparr>)
                    (Some (nascent_config ?e2 example_device example_request)))\<lparr>dev_failed := False\<rparr>))"
    using acquire_waits_or_starts [OF d example_env_addrs_lookup example_netdev_up,
        of "[example_tentative, example_lladdr]", THEN conjunct2, rule_format, OF f]
    by (simp add: example_after_duid)
  have 3: "fst (ni_dhcp6_acquire ?e2 example_device example_request) = 0
     \<and> dev_fsm_state (snd (ni_dhcp6_acquire ?e2 example_device example_request)) = NI_DHCP6_STATE_SELECTING
     \<and> dev_link_addr (snd (ni_dhcp6_acquire ?e2 example_device example_request))
         = addr_local_addr example_lladdr"
    by (simp add: 2 st ni_dhcp6_device_alloc_buffer_def ni_dhcp6_device_set_config_def Let_def
        example_device_fields)
  show ?thesis
    using d [of "[example_tentative]"] f 3
    by (simp add: 1 example_env_addrs_lookup example_netdev_up example_lladdrs example_usable)
qed

text \<open>
  Claim C6 wants the scan to fail hard whenever a link-local address is flagged duplicate
  and none is usable. \<open>ni_dhcp6_device_set_lladdr\<close> reports the duplicate with \<open>-1\<close>, but
  the loop of \<open>ni_dhcp6_device_find_lladdr\<close> goes on and overwrites \<open>rv\<close> with the result
  of each later link-local address. On the list (duplicate, tentative) the scan returns 1
  and \<open>ni_dhcp6_acquire\<close> installs the config and waits in \<open>WAIT_READY\<close>; on the same
  addresses in the other order, (tentative, duplicate), the scan returns \<open>-1\<close> and acquire
  fails, installing nothing.
\<close>

theorem acquire_duplicate_masked_by_tentative:
  "nd_link_up (example_netdev\<lparr>nd_addrs := [example_duplicate, example_tentative]\<rparr>)
   \<and> lladdrs (example_netdev\<lparr>nd_addrs := [example_duplicate, example_tentative]\<rparr>)
        = [example_duplicate, example_tentative]
   \<and> addr_duplicate example_duplicate
   \<and> \<not> addr_usable example_duplicate \<and> \<not> addr_usable example_tentative
   \<and> ni_dhcp6_device_find_lladdr (example_env_addrs [example_duplicate, example_tentative])
        example_device = (1, example_device)
   \<and> fst (ni_dhcp6_acquire (example_env_addrs [example_duplicate, example_tentative])
        example_device example_request) = 1
   \<and> dev_fsm_state (snd (ni_dhcp6_acquire (example_env_addrs [example_duplicate, example_tentative])
        example_device example_request)) = NI_DHCP6_STATE_WAIT_READY
   \<and> dev_config (snd (ni_dhcp6_acquire (example_env_addrs [example_duplicate, example_tentative])
        example_device example_request)) \<noteq> None
   \<and> ni_dhcp6_device_find_lladdr (example_env_addrs [example_tentative, example_duplicate])
        example_device = (- 1, example_device)
   \<and> fst (ni_dhcp6_acquire (example_env_addrs [example_tentative, example_duplicate])
        example_device example_request) = - 1
   \<and> dev_config (snd (ni_dhcp6_acquire (example_env_addrs [example_tentative, example_duplicate])
        example_device example_request)) = None"
proof -
  let ?e = "example_env_addrs [example_duplicate, example_tentative]"
  let ?e2 = "example_env_addrs [example_tentative, example_duplicate]"
  have d: "fst (ni_dhcp6_config_init_duid (example_env_addrs addrs) example_device []
      (req_clientid example_request))" for addrs
    by (simp add: example_env_addrs_duid)
  have l2: "lladdrs (example_netdev\<lparr>nd_addrs := [example_tentative, example_duplicate]\<rparr>)
      = [example_tentative, example_duplicate]"
    by (simp add: lladdrs_def example_is_lladdr)
  have s: "ni_dhcp6_device_find_lladdr ?e example_device = (1, example_device)"
    using find_lladdr_not_yet [OF example_env_addrs_lookup example_netdev_up,
        of "[example_duplicate, example_tentative]"]
    by (simp add: example_lladdrs example_usable)
  have s2: "ni_dhcp6_device_find_lladdr ?e2 example_device = (- 1, example_device)"
    using find_lladdr_not_yet [OF example_env_addrs_lookup example_netdev_up,
        of "[example_tentative, example_duplicate]"]
    by (simp add: l2 example_usable)
  have a: "ni_dhcp6_acquire ?e example_device example_request
      = (1, (ni_dhcp6_device_set_config example_device
               (Some (nascent_config ?e example_device example_request)))
                      \<lparr>dev_fsm_state := NI_DHCP6_STATE_WAIT_READY,
                       dev_fsm_timer := Some NI_DHCP6_WAIT_READY_MSEC,
                       dev_fsm_fail_on_timeout := True\<rparr>)"
    by (simp add: acquire_after_duid [OF d] example_after_duid s Let_def)
  have a2: "ni_dhcp6_acquire ?e2 example_device example_request
      = (- 1, ni_dhcp6_device_config_free (Some (nascent_config ?e2 example_device example_request))
                example_device)"
    by (simp add: acquire_after_duid [OF d] example_after_duid s2 Let_def)
  show ?thesis
    using s s2
    by (simp add: a a2 ni_dhcp6_device_set_config_def ni_dhcp6_device_config_free_def
        example_lladdrs example_usable example_netdev_up example_device_fields Let_def)
qed

section \<open>Ignore-server check\<close>

lemma dec_byte_examples:
  "dec_byte 254 = ''254''" "dec_byte 128 = ''128''" "dec_byte 0 = ''0''"
  by (simp_all add: dec_byte_def dec_digit_def char_of_def bit_Suc_0_iff)

lemma inet_ntop_example: "inet_ntop_AF_INET example_server = ''254.128.0.0''"
  by (simp add: inet_ntop_AF_INET_def example_server_def dec_byte_examples)

text \<open>
  Claim C9 wants a match exactly when the canonical IPv6 text of the address equals a
  list entry. \<open>ni_dhcp6_config_ignore_server\<close> formats the address with \<open>AF_INET\<close>: for
  the server \<open>fe80::1\<close> it compares \<open>254.128.0.0\<close>, the first four bytes in dotted
  decimal. With \<open>fe80::1\<close> on the ignore list it reports no match, and with
  \<open>254.128.0.0\<close> on the list it reports one.
\<close>

theorem ignore_server_prints_ipv4:
  "env_ignore_servers example_env = [''fe80::1'']
   \<and> inet_ntop_AF_INET example_server = ''254.128.0.0''
   \<and> ni_dhcp6_config_ignore_server example_env example_server = False
   \<and> ni_dhcp6_config_ignore_server
        (example_env\<lparr>env_ignore_servers := [''254.128.0.0'']\<rparr>) example_server = True"
  by (simp add: ni_dhcp6_config_ignore_server_def inet_ntop_example example_env_def
      strcaseeq_def char_lower_def Let_def)

end
